theory Spec2Isabelle
  imports Main
begin

section \<open>JavaScript values\<close>

text \<open>
  The request body of \<^verbatim>\<open>POST /fingerprint-data\<close> is parsed JSON, and the handlers inspect
  its fields only through truthiness, \<^verbatim>\<open>typeof\<close>, strict equality and numeric coercion.
  A field that is absent reads as \<open>JUndefined\<close>.

  Numbers are IEEE doubles in the source. The model covers the integer-valued ones
  (\<open>JNum n\<close> is the double whose value is the integer \<open>n\<close>), the two infinities
  (\<open>JInfinity True\<close> is \<^verbatim>\<open>Infinity\<close>, \<open>JInfinity False\<close> is \<^verbatim>\<open>-Infinity\<close>) and NaN (\<open>JNaN\<close>).
  The one product that the source computes on a number of the request is rounded as the
  doubles round it (\<open>js_times\<close> below).

  An object or an array is represented by the string that its conversion to a primitive
  yields (\<^verbatim>\<open>"[object Object]"\<close> for a plain object, the joined elements for an array): this
  is all that a comparison or \<^verbatim>\<open>new Date(v)\<close> reads of it. Two objects that come out of
  JSON parsing are never the same reference, so no object is strictly equal to another.
\<close>

datatype jsval =
    JUndefined
  | JNull
  | JBool bool
  | JNum int
  | JInfinity bool
  | JNaN
  | JStr string
  | JObject string

datatype jstype = TUndefined | TObject | TBoolean | TNumber | TString

fun typeof :: "jsval \<Rightarrow> jstype" where
  "typeof JUndefined = TUndefined"
| "typeof JNull = TObject"
| "typeof (JBool b) = TBoolean"
| "typeof (JNum n) = TNumber"
| "typeof (JInfinity pos) = TNumber"
| "typeof JNaN = TNumber"
| "typeof (JStr s) = TString"
| "typeof (JObject s) = TObject"

text \<open>\<^verbatim>\<open>!v\<close> is \<open>\<not> truthy v\<close>.\<close>

fun truthy :: "jsval \<Rightarrow> bool" where
  "truthy JUndefined = False"
| "truthy JNull = False"
| "truthy (JBool b) = b"
| "truthy (JNum n) = (n \<noteq> 0)"
| "truthy (JInfinity pos) = True"
| "truthy JNaN = False"
| "truthy (JStr s) = (s \<noteq> [])"
| "truthy (JObject s) = True"

text \<open>\<^verbatim>\<open>a === b\<close>: NaN differs from itself, objects are compared by reference.\<close>

fun strict_eq :: "jsval \<Rightarrow> jsval \<Rightarrow> bool" where
  "strict_eq JNaN b = False"
| "strict_eq (JObject s) b = False"
| "strict_eq a b = (a = b)"

text \<open>
  \<^verbatim>\<open>ToNumber(v)\<close>: the result is a number, that is \<open>JNum\<close>, \<open>JInfinity\<close> or \<open>JNaN\<close>. The
  conversion of a string to a number is the runtime's (\<open>str_num\<close>, with \<open>None\<close> for a
  string that converts to NaN).
\<close>

fun to_number :: "(string \<Rightarrow> int option) \<Rightarrow> jsval \<Rightarrow> jsval" where
  "to_number str_num JUndefined = JNaN"
| "to_number str_num JNull = JNum 0"
| "to_number str_num (JBool b) = JNum (if b then 1 else 0)"
| "to_number str_num (JNum n) = JNum n"
| "to_number str_num (JInfinity pos) = JInfinity pos"
| "to_number str_num JNaN = JNaN"
| "to_number str_num (JStr s) = (case str_num s of None \<Rightarrow> JNaN | Some n \<Rightarrow> JNum n)"
| "to_number str_num (JObject s) = (case str_num s of None \<Rightarrow> JNaN | Some n \<Rightarrow> JNum n)"

text \<open>\<^verbatim>\<open>v >= t\<close> for a finite number \<open>t\<close>: false as soon as \<open>v\<close> converts to NaN.\<close>

definition js_ge :: "(string \<Rightarrow> int option) \<Rightarrow> jsval \<Rightarrow> int \<Rightarrow> bool" where
  "js_ge str_num v t =
     (case to_number str_num v of
        JNum n \<Rightarrow> t \<le> n
      | JInfinity pos \<Rightarrow> pos
      | _ \<Rightarrow> False)"

text \<open>
  \<^verbatim>\<open>a * b\<close> on two integer-valued doubles. The result is the exact product rounded to
  the nearest double: an integer of more than 53 bits is rounded to 53 significant bits,
  a tie goes to the even neighbour, and a result that reaches \<open>2^1024\<close> is infinite.
\<close>

function bit_length :: "int \<Rightarrow> nat" where
  "bit_length n = (if n \<le> 0 then 0 else Suc (bit_length (n div 2)))"
  by pat_completeness auto
termination
  by (relation "measure nat") auto

declare bit_length.simps [simp del]

definition double_of_int :: "int \<Rightarrow> jsval" where
  "double_of_int x =
     (let a = \<bar>x\<bar>;
          ulp = 2 ^ (bit_length a - 53);
          q = a div ulp;
          r = a mod ulp;
          rounded = (if ulp < 2 * r \<or> (2 * r = ulp \<and> odd q) then q + 1 else q) * ulp
      in if 2 ^ 1024 \<le> rounded then JInfinity (0 < x)
         else JNum (if 0 < x then rounded else - rounded))"

definition js_times :: "int \<Rightarrow> int \<Rightarrow> jsval" where
  "js_times a b = double_of_int (a * b)"

section \<open>Dates\<close>

text \<open>
  A \<^verbatim>\<open>Date\<close> is its time value in milliseconds since the epoch, \<open>None\<close> for an invalid
  date. \<^verbatim>\<open>Date.parse\<close> is the runtime's and a parameter of the model (\<open>date_parse\<close>), as
  is the clock (\<open>now\<close>, a reading of \<^verbatim>\<open>Date.now()\<close>).
\<close>

type_synonym date = "int option"

definition time_clip :: "int \<Rightarrow> date" where
  "time_clip n = (if \<bar>n\<bar> \<le> 8640000000000000 then Some n else None)"

text \<open>\<^verbatim>\<open>new Date(v)\<close> with one argument.\<close>

fun new_Date :: "(string \<Rightarrow> int option) \<Rightarrow> jsval \<Rightarrow> date" where
  "new_Date date_parse JUndefined = None"
| "new_Date date_parse JNull = Some 0"
| "new_Date date_parse (JBool b) = Some (if b then 1 else 0)"
| "new_Date date_parse (JNum n) = time_clip n"
| "new_Date date_parse (JInfinity pos) = None"
| "new_Date date_parse JNaN = None"
| "new_Date date_parse (JStr s) = date_parse s"
| "new_Date date_parse (JObject s) = date_parse s"

text \<open>\<^verbatim>\<open>Math.abs(a - b) < 1000\<close> on two dates: false when either is invalid.\<close>

fun within_1000 :: "date \<Rightarrow> date \<Rightarrow> bool" where
  "within_1000 (Some a) (Some b) = (\<bar>a - b\<bar> < 1000)"
| "within_1000 a b = False"

section \<open>The server (website3/server.js)\<close>

record named =
  name :: jsval

record 't event = named +
  action :: jsval
  timestamp :: 't

text \<open>The request body, and the entry the server stores.\<close>

type_synonym raw = "jsval event"

record entry = "jsval event" +
  receivedAt :: int

definition MAX_HISTORY :: nat where
  "MAX_HISTORY = 100"

datatype rejection = InvalidDataFormat | InvalidAction

datatype response = Status200 entry | Status400 rejection

text \<open>
  The normalisation inside the handler: a number below \<open>10000000000\<close> is taken as seconds
  and multiplied by 1000 (\<^verbatim>\<open>-Infinity\<close> times 1000 is \<^verbatim>\<open>-Infinity\<close>), a string goes through
  \<^verbatim>\<open>new Date(s).getTime()\<close>, anything else is kept as it is.
\<close>

definition normalize_timestamp :: "(string \<Rightarrow> int option) \<Rightarrow> jsval \<Rightarrow> jsval" where
  "normalize_timestamp date_parse ts =
     (case ts of
        JNum n \<Rightarrow> if n < 10000000000 then js_times n 1000 else JNum n
      | JStr s \<Rightarrow> (case date_parse s of None \<Rightarrow> JNaN | Some t \<Rightarrow> JNum t)
      | _ \<Rightarrow> ts)"

text \<open>
  \<^verbatim>\<open>app.post('/fingerprint-data')\<close>: the store \<open>latestData\<close> before, the body, and the
  store after with the response.
\<close>

definition post_fingerprint_data ::
  "(string \<Rightarrow> int option) \<Rightarrow> int \<Rightarrow> entry list \<Rightarrow> raw \<Rightarrow> entry list \<times> response" where
  "post_fingerprint_data date_parse now latestData data =
     (if \<not> truthy (name data) \<or> \<not> truthy (action data) \<or> \<not> truthy (timestamp data)
      then (latestData, Status400 InvalidDataFormat)
      else if action data \<noteq> JStr ''in'' \<and> action data \<noteq> JStr ''out''
      then (latestData, Status400 InvalidAction)
      else
        let entry = \<lparr> name = name data, action = action data,
                       timestamp = normalize_timestamp date_parse (timestamp data),
                       receivedAt = now \<rparr>;
            unshifted = entry # latestData
        in (if length unshifted > MAX_HISTORY then take MAX_HISTORY unshifted else unshifted,
            Status200 entry))"

text \<open>\<^verbatim>\<open>GET /api/data\<close>: the count and the whole store.\<close>

definition get_api_data :: "entry list \<Rightarrow> nat \<times> entry list" where
  "get_api_data latestData = (length latestData, latestData)"

text \<open>\<^verbatim>\<open>DELETE /api/data\<close>: the emptied store and the count that the message reports.\<close>

definition delete_api_data :: "entry list \<Rightarrow> entry list \<times> nat" where
  "delete_api_data latestData = ([], length latestData)"

record statistics =
  totalEntries :: nat
  signInsToday :: nat
  signOutsToday :: nat

record stats = statistics +
  entriesLast24h :: nat

text \<open>
  \<^verbatim>\<open>GET /api/stats\<close>. \<open>start_of_day now\<close> is the local midnight of the day of \<open>now\<close>
  (\<^verbatim>\<open>new Date(now.getFullYear(), now.getMonth(), now.getDate()).getTime()\<close>), which depends
  on the time zone of the process and is a parameter of the model. The handler runs in
  one turn of the event loop, and its clock readings are taken to be the same instant.
\<close>

definition get_api_stats ::
  "(string \<Rightarrow> int option) \<Rightarrow> (int \<Rightarrow> int) \<Rightarrow> int \<Rightarrow> entry list \<Rightarrow> stats" where
  "get_api_stats str_num start_of_day now latestData =
     (let todayStart = start_of_day now;
          todayEntries = filter (\<lambda>entry. js_ge str_num (timestamp entry) todayStart) latestData
      in \<lparr> totalEntries = length latestData,
           signInsToday = length (filter (\<lambda>entry. action entry = JStr ''in'') todayEntries),
           signOutsToday = length (filter (\<lambda>entry. action entry = JStr ''out'') todayEntries),
           entriesLast24h =
             length (filter (\<lambda>entry. js_ge str_num (timestamp entry) (now - 24 * 60 * 60 * 1000))
                       latestData) \<rparr>)"



fun is_200 :: "response \<Rightarrow> bool" where
  "is_200 (Status200 e) = True"
| "is_200 (Status400 r) = False"

section \<open>The dashboards (website3 script, website2 script)\<close>

text \<open>
  \<^verbatim>\<open>STATE.activeSessions\<close> is a \<^verbatim>\<open>Map\<close>: a list of key and value pairs in insertion order,
  whose keys are compared by SameValueZero (NaN equals itself, an object only itself).
  The objects that reach the map come out of JSON parsing, each a reference of its own, so
  that an object given as a key matches no key of the map. \<^verbatim>\<open>set\<close> replaces the value of
  a key that is present and appends otherwise; \<^verbatim>\<open>delete\<close> removes the pair of the key.
  A list can hold a key twice, which a \<^verbatim>\<open>Map\<close> cannot: that the lists which the dashboards
  reach never do is proved with the sessions below.
\<close>

fun same_value_zero :: "jsval \<Rightarrow> jsval \<Rightarrow> bool" where
  "same_value_zero (JObject s) b = False"
| "same_value_zero a b = (a = b)"

fun Map_set :: "jsval \<Rightarrow> 'v \<Rightarrow> (jsval \<times> 'v) list \<Rightarrow> (jsval \<times> 'v) list" where
  "Map_set k v [] = [(k, v)]"
| "Map_set k v ((k', v') # m) =
     (if same_value_zero k' k then (k', v) # m else (k', v') # Map_set k v m)"

fun Map_delete :: "jsval \<Rightarrow> (jsval \<times> 'v) list \<Rightarrow> (jsval \<times> 'v) list" where
  "Map_delete k [] = []"
| "Map_delete k ((k', v') # m) =
     (if same_value_zero k' k then m else (k', v') # Map_delete k m)"

fun Map_get :: "jsval \<Rightarrow> (jsval \<times> 'v) list \<Rightarrow> 'v option" where
  "Map_get k [] = None"
| "Map_get k ((k', v') # m) = (if same_value_zero k' k then Some v' else Map_get k m)"

text \<open>The number of pairs of a map that a key addresses.\<close>

definition sessions_of :: "jsval \<Rightarrow> (jsval \<times> 'v) list \<Rightarrow> nat" where
  "sessions_of k m = length (filter (\<lambda>p. same_value_zero (fst p) k) m)"

text \<open>
  Both dashboards declare the same \<^verbatim>\<open>STATE\<close>; the model keeps the fields that the functions
  below write.
\<close>

record session = named +
  startTime :: date

record STATE =
  activeSessions :: "(jsval \<times> session) list"
  activityHistory :: "date event list"
  statistics :: statistics

definition STATE_init :: STATE where
  "STATE_init =
     \<lparr> activeSessions = [], activityHistory = [],
       statistics = \<lparr> totalEntries = 0, signInsToday = 0, signOutsToday = 0 \<rparr> \<rparr>"

text \<open>Which return of a dashboard function was taken.\<close>

datatype processed = Invalid | TypeError | Duplicate | Added "date event"

subsection \<open>website3\<close>

text \<open>The payload that the device answers with: it may carry \<^verbatim>\<open>timestamp\<close> or \<^verbatim>\<open>time\<close>.\<close>

record device_data = "jsval event" +
  time :: jsval

text \<open>
  \<^verbatim>\<open>String.prototype.toLowerCase\<close> is the runtime's, the case mapping of Unicode, and a
  parameter of \<^verbatim>\<open>processData\<close> (\<open>toLowerCase\<close>). On a string of ASCII characters it is
  \<open>ascii_toLowerCase\<close>, which the closed examples below put in its place.
\<close>

definition lower_char :: "char \<Rightarrow> char" where
  "lower_char c =
     (let n = (of_char c :: nat) in if 65 \<le> n \<and> n \<le> 90 then char_of (n + 32) else c)"

definition ascii_toLowerCase :: "string \<Rightarrow> string" where
  "ascii_toLowerCase s = map lower_char s"

text \<open>
  \<^verbatim>\<open>parseTimestamp\<close>. The product in its second line is taken of a number between
  \<open>1000000000\<close> and \<open>10000000000\<close>, where it is exact.
\<close>

definition parseTimestamp :: "(string \<Rightarrow> int option) \<Rightarrow> int \<Rightarrow> jsval \<Rightarrow> date" where
  "parseTimestamp date_parse now ts =
     (if \<not> truthy ts then Some now
      else (case ts of
        JNum n \<Rightarrow>
          if 1000000000 < n \<and> n < 10000000000 then time_clip (n * 1000)
          else if 1000000000000 < n then time_clip n
          else (case time_clip n of None \<Rightarrow> Some now | Some d \<Rightarrow> Some d)
      | JInfinity pos \<Rightarrow> if pos then None else Some now
      | _ \<Rightarrow> (case new_Date date_parse ts of None \<Rightarrow> Some now | Some d \<Rightarrow> Some d)))"

definition addActiveSession :: "date event \<Rightarrow> STATE \<Rightarrow> STATE" where
  "addActiveSession entry S =
     S\<lparr> activeSessions :=
          Map_set (name entry) \<lparr> name = name entry, startTime = timestamp entry \<rparr>
            (activeSessions S) \<rparr>"

definition removeActiveSession :: "jsval \<Rightarrow> STATE \<Rightarrow> STATE" where
  "removeActiveSession nm S = S\<lparr> activeSessions := Map_delete nm (activeSessions S) \<rparr>"

definition addActivityEntry :: "date event \<Rightarrow> STATE \<Rightarrow> STATE" where
  "addActivityEntry entry S =
     (let unshifted = entry # activityHistory S
      in S\<lparr> activityHistory := (if length unshifted > 50 then take 50 unshifted else unshifted) \<rparr>)"

text \<open>
  \<^verbatim>\<open>processData\<close>. The payload is \<open>None\<close> when it is falsy. An action that is not a string
  has no \<^verbatim>\<open>toLowerCase\<close>: the call throws before anything is written, and \<^verbatim>\<open>fetchData\<close>
  catches the exception.
\<close>

definition processData ::
  "(string \<Rightarrow> string) \<Rightarrow> (string \<Rightarrow> int option) \<Rightarrow> int \<Rightarrow> STATE \<Rightarrow> device_data option
     \<Rightarrow> STATE \<times> processed" where
  "processData toLowerCase date_parse now S payload =
     (case payload of
        None \<Rightarrow> (S, Invalid)
      | Some data \<Rightarrow>
          if \<not> truthy (name data) \<or> \<not> truthy (action data) then (S, Invalid)
          else (case action data of
            JStr a \<Rightarrow>
              let entry = \<lparr> name = name data, action = JStr (toLowerCase a),
                             timestamp = parseTimestamp date_parse now
                               (if truthy (timestamp data) then timestamp data else time data) \<rparr>;
                  st = statistics S;
                  S1 = S\<lparr> statistics := st\<lparr> totalEntries := totalEntries st + 1 \<rparr> \<rparr>;
                  st1 = statistics S1;
                  S2 = (if action entry = JStr ''in''
                        then addActiveSession entry
                               (S1\<lparr> statistics := st1\<lparr> signInsToday := signInsToday st1 + 1 \<rparr> \<rparr>)
                        else if action entry = JStr ''out''
                        then removeActiveSession (name entry)
                               (S1\<lparr> statistics := st1\<lparr> signOutsToday := signOutsToday st1 + 1 \<rparr> \<rparr>)
                        else S1)
              in (addActivityEntry entry S2, Added entry)
          | _ \<Rightarrow> (S, TypeError)))"

text \<open>\<^verbatim>\<open>clearActivity\<close> of website3 resets the activity history only.\<close>

definition clearActivity :: "STATE \<Rightarrow> STATE" where
  "clearActivity S = S\<lparr> activityHistory := [] \<rparr>"

subsection \<open>website2\<close>

text \<open>
  The conversion at the head of \<^verbatim>\<open>processEntry\<close>: a number or a string goes through
  \<^verbatim>\<open>new Date(v)\<close>, anything else becomes the current instant.
\<close>

definition convert_timestamp :: "(string \<Rightarrow> int option) \<Rightarrow> int \<Rightarrow> jsval \<Rightarrow> date" where
  "convert_timestamp date_parse now ts =
     (case ts of
        JNum n \<Rightarrow> time_clip n
      | JInfinity pos \<Rightarrow> None
      | JNaN \<Rightarrow> None
      | JStr s \<Rightarrow> date_parse s
      | _ \<Rightarrow> Some now)"

text \<open>
  \<^verbatim>\<open>processEntry\<close>, applied to each entry that \<^verbatim>\<open>GET /api/data\<close> returned. The \<^verbatim>\<open>id\<close> string
  that it also puts into the entry is derived from the other fields and left out.
\<close>

definition processEntry ::
  "(string \<Rightarrow> int option) \<Rightarrow> int \<Rightarrow> STATE \<Rightarrow> raw \<Rightarrow> STATE \<times> processed" where
  "processEntry date_parse now S data =
     (if \<not> truthy (name data) \<or> \<not> truthy (action data) then (S, Invalid)
      else
        let ts = convert_timestamp date_parse now (timestamp data);
            isDuplicate =
              list_ex (\<lambda>entry. strict_eq (name entry) (name data)
                          \<and> strict_eq (action entry) (action data)
                          \<and> within_1000 (timestamp entry) ts)
                (activityHistory S)
        in if isDuplicate then (S, Duplicate)
           else
             let entry = \<lparr> name = name data, action = action data, timestamp = ts \<rparr>;
                 S1 = (if action entry = JStr ''in''
                       then S\<lparr> activeSessions :=
                                Map_set (name entry)
                                  \<lparr> name = name entry, startTime = timestamp entry \<rparr>
                                  (activeSessions S) \<rparr>
                       else if action entry = JStr ''out''
                       then S\<lparr> activeSessions := Map_delete (name entry) (activeSessions S) \<rparr>
                       else S);
                 unshifted = entry # activityHistory S1
             in (S1\<lparr> activityHistory :=
                       (if length unshifted > 50 then take 50 unshifted else unshifted) \<rparr>,
                 Added entry))"

text \<open>
  \<^verbatim>\<open>clearActivity\<close> of website2 asks for confirmation first, then resets the activity
  history and the active sessions.
\<close>

definition clearActivity_website2 :: "bool \<Rightarrow> STATE \<Rightarrow> STATE" where
  "clearActivity_website2 confirmed S =
     (if \<not> confirmed then S else S\<lparr> activityHistory := [], activeSessions := [] \<rparr>)"

text \<open>Runs of the two dashboards over a sequence of payloads, each with its clock reading.\<close>

fun processData_all ::
  "(string \<Rightarrow> string) \<Rightarrow> (string \<Rightarrow> int option) \<Rightarrow> STATE
     \<Rightarrow> (int \<times> device_data option) list \<Rightarrow> STATE \<times> processed list" where
  "processData_all toLowerCase date_parse S [] = (S, [])"
| "processData_all toLowerCase date_parse S ((now, payload) # rest) =
     (let (S1, r) = processData toLowerCase date_parse now S payload;
          (S2, rs) = processData_all toLowerCase date_parse S1 rest
      in (S2, r # rs))"

fun processEntry_all ::
  "(string \<Rightarrow> int option) \<Rightarrow> STATE \<Rightarrow> (int \<times> raw) list \<Rightarrow> STATE \<times> processed list" where
  "processEntry_all date_parse S [] = (S, [])"
| "processEntry_all date_parse S ((now, data) # rest) =
     (let (S1, r) = processEntry date_parse now S data;
          (S2, rs) = processEntry_all date_parse S1 rest
      in (S2, r # rs))"



section \<open>The windows of the specification\<close>

text \<open>
  \<open>spec_today\<close> and \<open>spec_last24h\<close> follow the words of the specification, to be compared
  with what \<open>get_api_stats\<close> computes: an event counts for a day when its \<open>occurredAt\<close>
  lies between the midnight that starts the day and the midnight that ends it, and for the
  last 24 hours when it lies in the 24 hours that end at \<open>asOf\<close>.
\<close>

fun occurred_within :: "jsval \<Rightarrow> int \<Rightarrow> int \<Rightarrow> bool" where
  "occurred_within (JNum n) lo hi = (lo \<le> n \<and> n < hi)"
| "occurred_within v lo hi = False"

text \<open>An entry that carries a numeric timestamp which is not after the instant \<open>t\<close>.\<close>

fun not_after :: "jsval \<Rightarrow> int \<Rightarrow> bool" where
  "not_after (JNum n) t = (n \<le> t)"
| "not_after v t = False"

definition spec_today :: "jsval \<Rightarrow> int \<Rightarrow> int \<Rightarrow> entry list \<Rightarrow> nat" where
  "spec_today act day_start day_end latestData =
     length (filter (\<lambda>entry. action entry = act
                        \<and> occurred_within (timestamp entry) day_start day_end) latestData)"

definition spec_last24h :: "int \<Rightarrow> entry list \<Rightarrow> nat" where
  "spec_last24h asOf latestData =
     length (filter (\<lambda>entry. occurred_within (timestamp entry) (asOf - 86400000) (asOf + 1))
               latestData)"

section \<open>Products that are exact\<close>

lemma bit_length_le: "n < 2 ^ k \<Longrightarrow> bit_length n \<le> k"
proof (induction k arbitrary: n)
  case 0
  then show ?case by (simp add: bit_length.simps)
next
  case (Suc k)
  then have "n div 2 < 2 ^ k" by simp
  then have "bit_length (n div 2) \<le> k" by (rule Suc.IH)
  then show ?case by (subst bit_length.simps) simp
qed

lemma double_of_int_exact:
  assumes "\<bar>x\<bar> < 2 ^ 53"
  shows "double_of_int x = JNum x"
proof -
  have "bit_length \<bar>x\<bar> \<le> 53" using assms by (rule bit_length_le)
  then have ulp: "bit_length \<bar>x\<bar> - 53 = 0" by simp
  have "(2::int) ^ 53 \<le> 2 ^ 1024" by (rule power_increasing) simp_all
  then have finite: "\<not> 2 ^ 1024 \<le> \<bar>x\<bar>" using assms by linarith
  show ?thesis
    unfolding double_of_int_def Let_def ulp using finite by simp
qed

lemma js_times_1000_exact:
  assumes "- 9007199254740 \<le> n" and "n < 10000000000"
  shows "js_times n 1000 = JNum (n * 1000)"
proof -
  have "\<bar>n * 1000\<bar> < 2 ^ 53" using assms by simp
  then show ?thesis unfolding js_times_def by (rule double_of_int_exact)
qed

lemma normalize_seconds:
  assumes "- 9007199254740 \<le> n" and "n < 10000000000"
  shows "normalize_timestamp date_parse (JNum n) = JNum (n * 1000)"
  using assms js_times_1000_exact [OF assms] by (simp add: normalize_timestamp_def)

section \<open>Validation at the ingestion endpoint\<close>

text \<open>
  C5. Ingestion is rejected with status 400 whenever the name is missing or empty, the
  action is missing, or the action is neither \<^verbatim>\<open>"in"\<close> nor \<^verbatim>\<open>"out"\<close>; the two records of
  the specification, with an empty name and with the action \<^verbatim>\<open>"left"\<close>, are rejected.
\<close>

theorem validation_rejection:
  "(\<not> truthy (name data) \<or> \<not> truthy (action data)
      \<or> (action data \<noteq> JStr ''in'' \<and> action data \<noteq> JStr ''out'')
    \<longrightarrow> (\<exists>r. snd (post_fingerprint_data date_parse now latestData data) = Status400 r))
   \<and> snd (post_fingerprint_data date_parse now latestData
        \<lparr> name = JStr [], action = JStr ''in'', timestamp = JNum 123 \<rparr>)
       = Status400 InvalidDataFormat
   \<and> snd (post_fingerprint_data date_parse now latestData
        \<lparr> name = JStr ''Bob'', action = JStr ''left'', timestamp = JNum 123 \<rparr>)
       = Status400 InvalidAction"
  by (simp add: post_fingerprint_data_def)

theorem validation_rejection_witness:
  "snd (post_fingerprint_data (\<lambda>s. None) 1710000001234 []
        \<lparr> name = JUndefined, action = JStr ''out'', timestamp = JNum 1710000000 \<rparr>)
     = Status400 InvalidDataFormat
   \<and> snd (post_fingerprint_data (\<lambda>s. None) 1710000001234 []
        \<lparr> name = JStr ''Bob'', action = JUndefined, timestamp = JNum 1710000000 \<rparr>)
     = Status400 InvalidDataFormat
   \<and> snd (post_fingerprint_data (\<lambda>s. None) 1710000001234 []
        \<lparr> name = JStr ''Bob'', action = JStr ''IN'', timestamp = JNum 1710000000 \<rparr>)
     = Status400 InvalidAction"
  using validation_rejection
    [of "\<lparr> name = JUndefined, action = JStr ''out'', timestamp = JNum 1710000000 \<rparr>"
        "\<lambda>s. None" 1710000001234 "[]"]
    validation_rejection
    [of "\<lparr> name = JStr ''Bob'', action = JUndefined, timestamp = JNum 1710000000 \<rparr>"
        "\<lambda>s. None" 1710000001234 "[]"]
    validation_rejection
    [of "\<lparr> name = JStr ''Bob'', action = JStr ''IN'', timestamp = JNum 1710000000 \<rparr>"
        "\<lambda>s. None" 1710000001234 "[]"]
  by (simp add: post_fingerprint_data_def)

section \<open>Normalisation of the timestamp\<close>

text \<open>
  C3. For every integer timestamp that ingestion accepts (the number is not zero, the name
  is truthy and the action is \<^verbatim>\<open>"in"\<close> or \<^verbatim>\<open>"out"\<close>), the stored entry carries the product of
  the input and 1000, as the source computes it, exactly when the input is below
  10,000,000,000, and the input unchanged otherwise; the entry is reported in the response
  and stands at the head of the store. The product is the exact one for every input from
  -9,007,199,254,740 on, where it stays within 53 bits. In particular 1710000000 becomes
  1710000000 * 1000 and 1710000000123 stays.
\<close>

theorem timestamp_unit_disambiguation:
  "(truthy (name data) \<and> (action data = JStr ''in'' \<or> action data = JStr ''out'')
      \<and> timestamp data = JNum n \<and> n \<noteq> 0
    \<longrightarrow> post_fingerprint_data date_parse now latestData data =
          (take MAX_HISTORY
             (\<lparr> name = name data, action = action data,
                timestamp = (if n < 10000000000 then js_times n 1000 else JNum n),
                receivedAt = now \<rparr> # latestData),
           Status200 \<lparr> name = name data, action = action data,
              timestamp = (if n < 10000000000 then js_times n 1000 else JNum n),
              receivedAt = now \<rparr>))
   \<and> (truthy (name data) \<and> (action data = JStr ''in'' \<or> action data = JStr ''out'')
      \<and> timestamp data = JNum n \<and> n \<noteq> 0 \<and> - 9007199254740 \<le> n
    \<longrightarrow> post_fingerprint_data date_parse now latestData data =
          (take MAX_HISTORY
             (\<lparr> name = name data, action = action data,
                timestamp = JNum (if n < 10000000000 then n * 1000 else n),
                receivedAt = now \<rparr> # latestData),
           Status200 \<lparr> name = name data, action = action data,
              timestamp = JNum (if n < 10000000000 then n * 1000 else n),
              receivedAt = now \<rparr>))
   \<and> normalize_timestamp date_parse (JNum 1710000000) = JNum (1710000000 * 1000)
   \<and> normalize_timestamp date_parse (JNum 1710000000123) = JNum 1710000000123"
proof (intro conjI impI)
  assume "truthy (name data) \<and> (action data = JStr ''in'' \<or> action data = JStr ''out'')
      \<and> timestamp data = JNum n \<and> n \<noteq> 0"
  then show "post_fingerprint_data date_parse now latestData data =
          (take MAX_HISTORY
             (\<lparr> name = name data, action = action data,
                timestamp = (if n < 10000000000 then js_times n 1000 else JNum n),
                receivedAt = now \<rparr> # latestData),
           Status200 \<lparr> name = name data, action = action data,
              timestamp = (if n < 10000000000 then js_times n 1000 else JNum n),
              receivedAt = now \<rparr>)"
    by (auto simp add: post_fingerprint_data_def normalize_timestamp_def MAX_HISTORY_def
          Let_def)
next
  assume a: "truthy (name data) \<and> (action data = JStr ''in'' \<or> action data = JStr ''out'')
      \<and> timestamp data = JNum n \<and> n \<noteq> 0 \<and> - 9007199254740 \<le> n"
  have exact: "n < 10000000000 \<Longrightarrow> js_times n 1000 = JNum (n * 1000)"
    using a js_times_1000_exact [of n] by simp
  show "post_fingerprint_data date_parse now latestData data =
          (take MAX_HISTORY
             (\<lparr> name = name data, action = action data,
                timestamp = JNum (if n < 10000000000 then n * 1000 else n),
                receivedAt = now \<rparr> # latestData),
           Status200 \<lparr> name = name data, action = action data,
              timestamp = JNum (if n < 10000000000 then n * 1000 else n),
              receivedAt = now \<rparr>)"
    using a exact
    by (auto simp add: post_fingerprint_data_def normalize_timestamp_def MAX_HISTORY_def
          Let_def)
next
  show "normalize_timestamp date_parse (JNum 1710000000) = JNum (1710000000 * 1000)"
    using js_times_1000_exact [of 1710000000] by (simp add: normalize_timestamp_def)
  show "normalize_timestamp date_parse (JNum 1710000000123) = JNum 1710000000123"
    by (simp add: normalize_timestamp_def)
qed

text \<open>
  The witness stores a timestamp in seconds and one in milliseconds. Its last two lines
  show the rounding outside the range of the exact product: -4632057594147051 times 1000
  has more than 53 bits and is stored as the nearest double, and a product beyond the
  range of the doubles is stored as \<^verbatim>\<open>-Infinity\<close>.
\<close>

theorem timestamp_unit_disambiguation_witness:
  "post_fingerprint_data (\<lambda>s. None) 1710000001234 []
      \<lparr> name = JStr ''Alice Johnson'', action = JStr ''in'', timestamp = JNum 1710000000 \<rparr>
    = ([\<lparr> name = JStr ''Alice Johnson'', action = JStr ''in'',
          timestamp = JNum 1710000000000, receivedAt = 1710000001234 \<rparr>],
       Status200 \<lparr> name = JStr ''Alice Johnson'', action = JStr ''in'',
          timestamp = JNum 1710000000000, receivedAt = 1710000001234 \<rparr>)
   \<and> post_fingerprint_data (\<lambda>s. None) 1710000001234 []
      \<lparr> name = JStr ''Alice Johnson'', action = JStr ''out'', timestamp = JNum 1710000000123 \<rparr>
    = ([\<lparr> name = JStr ''Alice Johnson'', action = JStr ''out'',
          timestamp = JNum 1710000000123, receivedAt = 1710000001234 \<rparr>],
       Status200 \<lparr> name = JStr ''Alice Johnson'', action = JStr ''out'',
          timestamp = JNum 1710000000123, receivedAt = 1710000001234 \<rparr>)
   \<and> normalize_timestamp (\<lambda>s. None) (JNum (- 4632057594147051))
       = JNum (- 4632057594147050496)
   \<and> normalize_timestamp (\<lambda>s. None) (JNum (- (2 ^ 1020))) = JInfinity False"
proof -
  have rounded: "normalize_timestamp (\<lambda>s. None) (JNum (- 4632057594147051))
       = JNum (- 4632057594147050496)"
    "normalize_timestamp (\<lambda>s. None) (JNum (- (2 ^ 1020))) = JInfinity False"
    by code_simp+
  have seconds: "js_times 1710000000 1000 = JNum 1710000000000"
    using js_times_1000_exact [of 1710000000] by simp
  show ?thesis
    using timestamp_unit_disambiguation
      [of "\<lparr> name = JStr ''Alice Johnson'', action = JStr ''in'',
             timestamp = JNum 1710000000 \<rparr>"
          1710000000 "\<lambda>s. None" 1710000001234 "[]"]
      timestamp_unit_disambiguation
      [of "\<lparr> name = JStr ''Alice Johnson'', action = JStr ''out'',
             timestamp = JNum 1710000000123 \<rparr>"
          1710000000123 "\<lambda>s. None" 1710000001234 "[]"]
      rounded seconds
    by (simp add: MAX_HISTORY_def)
qed

text \<open>
  C10. A record whose timestamp is the number 0 is rejected as if the timestamp were
  missing, whatever its name and action are, and the store is left as it was. A truthy
  timestamp that is neither a number nor a string (an object, the boolean \<^verbatim>\<open>true\<close>) passes
  validation, and the entry put at the head of the store and reported in the response
  carries it unchanged.
\<close>

theorem falsy_zero_and_unnormalized_timestamps:
  "(timestamp data = JNum 0
    \<longrightarrow> post_fingerprint_data date_parse now latestData data
          = (latestData, Status400 InvalidDataFormat))
   \<and> (truthy (name data) \<and> (action data = JStr ''in'' \<or> action data = JStr ''out'')
        \<and> truthy (timestamp data)
        \<and> typeof (timestamp data) \<noteq> TNumber \<and> typeof (timestamp data) \<noteq> TString
      \<longrightarrow> post_fingerprint_data date_parse now latestData data
            = (take MAX_HISTORY
                 (\<lparr> name = name data, action = action data,
                    timestamp = timestamp data, receivedAt = now \<rparr> # latestData),
               Status200 \<lparr> name = name data, action = action data,
                 timestamp = timestamp data, receivedAt = now \<rparr>))"
  by (cases "timestamp data")
     (auto simp add: post_fingerprint_data_def normalize_timestamp_def MAX_HISTORY_def Let_def)

theorem falsy_zero_and_unnormalized_timestamps_witness:
  "post_fingerprint_data (\<lambda>s. None) 1710000001234 []
      \<lparr> name = JStr ''Alice'', action = JStr ''in'', timestamp = JNum 0 \<rparr>
     = ([], Status400 InvalidDataFormat)
   \<and> post_fingerprint_data (\<lambda>s. None) 1710000001234 []
      \<lparr> name = JStr ''Alice'', action = JStr ''in'', timestamp = JBool True \<rparr>
     = ([\<lparr> name = JStr ''Alice'', action = JStr ''in'',
           timestamp = JBool True, receivedAt = 1710000001234 \<rparr>],
        Status200 \<lparr> name = JStr ''Alice'', action = JStr ''in'',
           timestamp = JBool True, receivedAt = 1710000001234 \<rparr>)
   \<and> post_fingerprint_data (\<lambda>s. None) 1710000001234 []
      \<lparr> name = JStr ''Alice'', action = JStr ''in'', timestamp = JObject ''[object Object]'' \<rparr>
     = ([\<lparr> name = JStr ''Alice'', action = JStr ''in'',
           timestamp = JObject ''[object Object]'', receivedAt = 1710000001234 \<rparr>],
        Status200 \<lparr> name = JStr ''Alice'', action = JStr ''in'',
           timestamp = JObject ''[object Object]'', receivedAt = 1710000001234 \<rparr>)"
  using falsy_zero_and_unnormalized_timestamps
    [of "\<lparr> name = JStr ''Alice'', action = JStr ''in'', timestamp = JNum 0 \<rparr>"
        "\<lambda>s. None" 1710000001234 "[]"]
    falsy_zero_and_unnormalized_timestamps
    [of "\<lparr> name = JStr ''Alice'', action = JStr ''in'', timestamp = JBool True \<rparr>"
        "\<lambda>s. None" 1710000001234 "[]"]
    falsy_zero_and_unnormalized_timestamps
    [of "\<lparr> name = JStr ''Alice'', action = JStr ''in'', timestamp = JObject ''[object Object]'' \<rparr>"
        "\<lambda>s. None" 1710000001234 "[]"]
  by (simp add: MAX_HISTORY_def)

text \<open>
  C2 (as amended). The server does not fall back to the current instant: a record whose
  timestamp is absent, or falsy in any other way, is rejected with status 400 and the
  store is left as it was. The fall-back is in the dashboard of website3:
  \<^verbatim>\<open>parseTimestamp\<close> returns the current instant for an absent timestamp and for a string
  that fails to parse, and \<^verbatim>\<open>processData\<close> puts the entry with that instant at the head of
  the activity history.
\<close>

theorem timestamp_fallback:
  "(\<not> truthy (timestamp raw)
     \<longrightarrow> post_fingerprint_data date_parse now latestData raw
           = (latestData, Status400 InvalidDataFormat))
   \<and> (\<not> truthy ts \<or> (\<exists>s. ts = JStr s \<and> date_parse s = None)
     \<longrightarrow> parseTimestamp date_parse now ts = Some now)
   \<and> (truthy (name payload) \<and> action payload = JStr a \<and> a \<noteq> []
       \<and> ts = (if truthy (timestamp payload) then timestamp payload else time payload)
       \<and> (\<not> truthy ts \<or> (\<exists>s. ts = JStr s \<and> date_parse s = None))
     \<longrightarrow> snd (processData toLowerCase date_parse now S (Some payload))
           = Added \<lparr> name = name payload, action = JStr (toLowerCase a),
                     timestamp = Some now \<rparr>
       \<and> activityHistory (fst (processData toLowerCase date_parse now S (Some payload)))
           = take 50 (\<lparr> name = name payload, action = JStr (toLowerCase a),
                         timestamp = Some now \<rparr> # activityHistory S))"
proof -
  have p: "parseTimestamp date_parse now v = Some now"
    if "\<not> truthy v \<or> (\<exists>s. v = JStr s \<and> date_parse s = None)" for v
    using that by (auto simp add: parseTimestamp_def)
  have step: "snd (processData toLowerCase date_parse now S (Some payload))
           = Added \<lparr> name = name payload, action = JStr (toLowerCase a),
                     timestamp = parseTimestamp date_parse now
                       (if truthy (timestamp payload) then timestamp payload
                        else time payload) \<rparr>
       \<and> activityHistory (fst (processData toLowerCase date_parse now S (Some payload)))
           = take 50 (\<lparr> name = name payload, action = JStr (toLowerCase a),
                         timestamp = parseTimestamp date_parse now
                           (if truthy (timestamp payload) then timestamp payload
                            else time payload) \<rparr> # activityHistory S)"
    if "truthy (name payload)" and "action payload = JStr a" and "a \<noteq> []"
    using that
    by (simp add: processData_def Let_def addActivityEntry_def addActiveSession_def
          removeActiveSession_def)
  show ?thesis
  proof (intro conjI impI)
    assume "\<not> truthy (timestamp raw)"
    then show "post_fingerprint_data date_parse now latestData raw
           = (latestData, Status400 InvalidDataFormat)"
      by (simp add: post_fingerprint_data_def)
  next
    assume "\<not> truthy ts \<or> (\<exists>s. ts = JStr s \<and> date_parse s = None)"
    then show "parseTimestamp date_parse now ts = Some now" by (rule p)
  next
    assume a: "truthy (name payload) \<and> action payload = JStr a \<and> a \<noteq> []
       \<and> ts = (if truthy (timestamp payload) then timestamp payload else time payload)
       \<and> (\<not> truthy ts \<or> (\<exists>s. ts = JStr s \<and> date_parse s = None))"
    have ts: "ts = (if truthy (timestamp payload) then timestamp payload else time payload)"
      using a by (elim conjE)
    have c: "\<not> truthy ts \<or> (\<exists>s. ts = JStr s \<and> date_parse s = None)"
      using a by (elim conjE)
    have "parseTimestamp date_parse now ts = Some now" using c by (rule p)
    then have q: "parseTimestamp date_parse now
        (if truthy (timestamp payload) then timestamp payload else time payload) = Some now"
      unfolding ts .
    have valid: "truthy (name payload)" "action payload = JStr a" "a \<noteq> []"
      using a by simp_all
    have both: "snd (processData toLowerCase date_parse now S (Some payload))
           = Added \<lparr> name = name payload, action = JStr (toLowerCase a),
                     timestamp = Some now \<rparr>
       \<and> activityHistory (fst (processData toLowerCase date_parse now S (Some payload)))
           = take 50 (\<lparr> name = name payload, action = JStr (toLowerCase a),
                         timestamp = Some now \<rparr> # activityHistory S)"
      using step [OF valid] unfolding q .
    from both show "snd (processData toLowerCase date_parse now S (Some payload))
           = Added \<lparr> name = name payload, action = JStr (toLowerCase a),
                     timestamp = Some now \<rparr>" ..
    from both show "activityHistory (fst (processData toLowerCase date_parse now S (Some payload)))
           = take 50 (\<lparr> name = name payload, action = JStr (toLowerCase a),
                         timestamp = Some now \<rparr> # activityHistory S)" ..
  qed
qed

theorem timestamp_fallback_witness:
  "post_fingerprint_data (\<lambda>s. None) 1710000001234 []
      \<lparr> name = JStr ''Alice'', action = JStr ''in'', timestamp = JUndefined \<rparr>
     = ([], Status400 InvalidDataFormat)
   \<and> parseTimestamp (\<lambda>s. None) 1710000001234 (JStr ''yesterday-ish'') = Some 1710000001234
   \<and> snd (processData ascii_toLowerCase (\<lambda>s. None) 1710000001234 STATE_init
        (Some \<lparr> name = JStr ''Alice'', action = JStr ''in'', timestamp = JUndefined,
                time = JUndefined \<rparr>))
     = Added \<lparr> name = JStr ''Alice'', action = JStr ''in'',
               timestamp = Some 1710000001234 \<rparr>
   \<and> activityHistory (fst (processData ascii_toLowerCase (\<lambda>s. None) 1710000001234 STATE_init
        (Some \<lparr> name = JStr ''Alice'', action = JStr ''in'', timestamp = JUndefined,
                time = JUndefined \<rparr>)))
     = [\<lparr> name = JStr ''Alice'', action = JStr ''in'', timestamp = Some 1710000001234 \<rparr>]"
proof -
  have lower: "ascii_toLowerCase ''in'' = ''in''"
    by code_simp
  show ?thesis
    using timestamp_fallback
      [where raw = "\<lparr> name = JStr ''Alice'', action = JStr ''in'', timestamp = JUndefined \<rparr>"
         and date_parse = "\<lambda>s. None" and now = 1710000001234 and latestData = "[]"
         and ts = "JStr ''yesterday-ish''"]
      timestamp_fallback
      [where date_parse = "\<lambda>s. None" and now = 1710000001234 and ts = JUndefined
         and toLowerCase = ascii_toLowerCase
         and payload = "\<lparr> name = JStr ''Alice'', action = JStr ''in'', timestamp = JUndefined,
                           time = JUndefined \<rparr>"
         and a = "''in''" and S = STATE_init]
      lower
    by (simp add: STATE_init_def)
qed

text \<open>
  The input at which C2 fails as stated: a record with a valid name and action and no
  timestamp is not ingested, it is rejected.
\<close>

theorem absent_timestamp_counterexample:
  "\<not> is_200 (snd (post_fingerprint_data (\<lambda>s. None) 1710000001234 []
      \<lparr> name = JStr ''Alice'', action = JStr ''in'', timestamp = JUndefined \<rparr>))"
  by (simp add: post_fingerprint_data_def)

section \<open>Rejections leave the state alone\<close>

text \<open>
  C9. When the endpoint rejects a record, the store after the call is the store before
  it; the server keeps no session map. The dashboards behave alike: \<^verbatim>\<open>processEntry\<close> and
  \<^verbatim>\<open>processData\<close> return the whole state (history, active sessions, counters) as it was
  when the name or the action is missing, and so does \<^verbatim>\<open>processData\<close> when it throws.
\<close>

theorem rejected_leaves_state:
  "((\<exists>r. snd (post_fingerprint_data date_parse now latestData data) = Status400 r)
      \<longrightarrow> fst (post_fingerprint_data date_parse now latestData data) = latestData)
   \<and> (\<not> truthy (name data) \<or> \<not> truthy (action data)
      \<longrightarrow> processEntry date_parse now S data = (S, Invalid))
   \<and> (\<not> truthy (name payload) \<or> \<not> truthy (action payload)
      \<longrightarrow> processData toLowerCase date_parse now S (Some payload) = (S, Invalid)
        \<and> processData toLowerCase date_parse now S None = (S, Invalid))
   \<and> (snd (processData toLowerCase date_parse now S p) = TypeError
      \<longrightarrow> fst (processData toLowerCase date_parse now S p) = S)"
  by (auto simp add: post_fingerprint_data_def processEntry_def processData_def Let_def
        split: option.splits jsval.splits)

theorem rejected_leaves_state_witness:
  "snd (post_fingerprint_data (\<lambda>s. None) 1710000001234
        [\<lparr> name = JStr ''Alice'', action = JStr ''in'', timestamp = JNum 1710000000000,
           receivedAt = 1710000000400 \<rparr>]
        \<lparr> name = JStr ''Bob'', action = JStr ''left'', timestamp = JNum 123 \<rparr>)
     = Status400 InvalidAction
   \<and> fst (post_fingerprint_data (\<lambda>s. None) 1710000001234
        [\<lparr> name = JStr ''Alice'', action = JStr ''in'', timestamp = JNum 1710000000000,
           receivedAt = 1710000000400 \<rparr>]
        \<lparr> name = JStr ''Bob'', action = JStr ''left'', timestamp = JNum 123 \<rparr>)
     = [\<lparr> name = JStr ''Alice'', action = JStr ''in'', timestamp = JNum 1710000000000,
           receivedAt = 1710000000400 \<rparr>]
   \<and> processEntry (\<lambda>s. None) 1710000001234 STATE_init
        \<lparr> name = JStr [], action = JStr ''in'', timestamp = JNum 123 \<rparr>
     = (STATE_init, Invalid)
   \<and> processData ascii_toLowerCase (\<lambda>s. None) 1710000001234 STATE_init
        (Some \<lparr> name = JStr [], action = JStr ''in'', timestamp = JNum 123,
                time = JUndefined \<rparr>)
     = (STATE_init, Invalid)
   \<and> snd (processData ascii_toLowerCase (\<lambda>s. None) 1710000001234 STATE_init
        (Some \<lparr> name = JStr ''Bob'', action = JNum 7, timestamp = JNum 123,
                time = JUndefined \<rparr>))
     = TypeError
   \<and> fst (processData ascii_toLowerCase (\<lambda>s. None) 1710000001234 STATE_init
        (Some \<lparr> name = JStr ''Bob'', action = JNum 7, timestamp = JNum 123,
                time = JUndefined \<rparr>))
     = STATE_init"
  using rejected_leaves_state
    [where date_parse = "\<lambda>s. None" and now = 1710000001234 and S = STATE_init
       and toLowerCase = ascii_toLowerCase
       and latestData = "[\<lparr> name = JStr ''Alice'', action = JStr ''in'',
                            timestamp = JNum 1710000000000, receivedAt = 1710000000400 \<rparr>]"
       and data = "\<lparr> name = JStr ''Bob'', action = JStr ''left'', timestamp = JNum 123 \<rparr>"
       and payload = "\<lparr> name = JStr [], action = JStr ''in'', timestamp = JNum 123,
                         time = JUndefined \<rparr>"
       and p = "Some \<lparr> name = JStr ''Bob'', action = JNum 7, timestamp = JNum 123,
                        time = JUndefined \<rparr>"]
    rejected_leaves_state
    [where date_parse = "\<lambda>s. None" and now = 1710000001234 and S = STATE_init
       and data = "\<lparr> name = JStr [], action = JStr ''in'', timestamp = JNum 123 \<rparr>"]
  by (simp add: post_fingerprint_data_def processData_def)

section \<open>Bounded retention\<close>
















section \<open>Deduplication\<close>

text \<open>
  C1 (as amended). Deduplication is done by the dashboard, not by the server. When the
  activity history already holds an entry with the same name, the same action and a
  timestamp less than 1000 ms away from the converted timestamp of the candidate,
  \<^verbatim>\<open>processEntry\<close> returns without changing the history or the active sessions. The
  endpoint of the server does not look for duplicates: every record that passes
  validation is reported as stored and put at the head of the store, whatever the store
  already holds.
\<close>

theorem dedup_in_dashboard_only:
  "(name data = JStr nm \<and> nm \<noteq> [] \<and> action data = JStr a \<and> a \<noteq> []
      \<and> e \<in> set (activityHistory S) \<and> name e = JStr nm \<and> action e = JStr a
      \<and> within_1000 (timestamp e) (convert_timestamp date_parse now (timestamp data))
    \<longrightarrow> processEntry date_parse now S data = (S, Duplicate))
   \<and> (truthy (name raw) \<and> (action raw = JStr ''in'' \<or> action raw = JStr ''out'')
        \<and> truthy (timestamp raw)
      \<longrightarrow> (\<exists>stored_entry.
             snd (post_fingerprint_data date_parse now latestData raw) = Status200 stored_entry
             \<and> snd (get_api_data (fst (post_fingerprint_data date_parse now latestData raw)))
                = take MAX_HISTORY (stored_entry # latestData)))"
proof (intro conjI impI)
  assume a: "name data = JStr nm \<and> nm \<noteq> [] \<and> action data = JStr a \<and> a \<noteq> []
      \<and> e \<in> set (activityHistory S) \<and> name e = JStr nm \<and> action e = JStr a
      \<and> within_1000 (timestamp e) (convert_timestamp date_parse now (timestamp data))"
  then have "list_ex (\<lambda>entry. strict_eq (name entry) (name data)
                          \<and> strict_eq (action entry) (action data)
                          \<and> within_1000 (timestamp entry)
                               (convert_timestamp date_parse now (timestamp data)))
                (activityHistory S)"
    unfolding list_ex_iff by (intro bexI [of _ e]) simp_all
  then show "processEntry date_parse now S data = (S, Duplicate)"
    using a by (simp add: processEntry_def Let_def)
next
  assume "truthy (name raw) \<and> (action raw = JStr ''in'' \<or> action raw = JStr ''out'')
        \<and> truthy (timestamp raw)"
  then show "\<exists>stored_entry.
             snd (post_fingerprint_data date_parse now latestData raw) = Status200 stored_entry
             \<and> snd (get_api_data (fst (post_fingerprint_data date_parse now latestData raw)))
                = take MAX_HISTORY (stored_entry # latestData)"
    by (auto simp add: post_fingerprint_data_def get_api_data_def Let_def MAX_HISTORY_def)
qed

theorem dedup_in_dashboard_only_witness:
  "processEntry (\<lambda>s. None) 1710000002000
      \<lparr> activeSessions = [], activityHistory =
          [\<lparr> name = JStr ''Alice'', action = JStr ''in'', timestamp = Some 1710000000000 \<rparr>],
        statistics = \<lparr> totalEntries = 0, signInsToday = 0, signOutsToday = 0 \<rparr> \<rparr>
      \<lparr> name = JStr ''Alice'', action = JStr ''in'', timestamp = JNum 1710000000999 \<rparr>
    = (\<lparr> activeSessions = [], activityHistory =
          [\<lparr> name = JStr ''Alice'', action = JStr ''in'', timestamp = Some 1710000000000 \<rparr>],
        statistics = \<lparr> totalEntries = 0, signInsToday = 0, signOutsToday = 0 \<rparr> \<rparr>,
       Duplicate)
   \<and> snd (get_api_data (fst (post_fingerprint_data (\<lambda>s. None) 1710000001250
        [\<lparr> name = JStr ''Alice'', action = JStr ''in'', timestamp = JNum 1710000000000,
           receivedAt = 1710000001234 \<rparr>]
        \<lparr> name = JStr ''Alice'', action = JStr ''in'', timestamp = JNum 1710000000 \<rparr>)))
     = [\<lparr> name = JStr ''Alice'', action = JStr ''in'', timestamp = JNum 1710000000000,
           receivedAt = 1710000001250 \<rparr>,
        \<lparr> name = JStr ''Alice'', action = JStr ''in'', timestamp = JNum 1710000000000,
           receivedAt = 1710000001234 \<rparr>]"
proof -
  have seconds: "normalize_timestamp (\<lambda>s. None) (JNum 1710000000) = JNum 1710000000000"
    using normalize_seconds [of 1710000000 "\<lambda>s. None"] by simp
  show ?thesis
  using dedup_in_dashboard_only
    [where date_parse = "\<lambda>s. None" and now = 1710000002000
       and nm = "''Alice''" and a = "''in''"
       and data = "\<lparr> name = JStr ''Alice'', action = JStr ''in'',
                      timestamp = JNum 1710000000999 \<rparr>"
       and e = "\<lparr> name = JStr ''Alice'', action = JStr ''in'',
                   timestamp = Some 1710000000000 \<rparr>"
       and S = "\<lparr> activeSessions = [], activityHistory =
          [\<lparr> name = JStr ''Alice'', action = JStr ''in'', timestamp = Some 1710000000000 \<rparr>],
        statistics = \<lparr> totalEntries = 0, signInsToday = 0, signOutsToday = 0 \<rparr> \<rparr>"]
    dedup_in_dashboard_only
    [where date_parse = "\<lambda>s. None" and now = 1710000001250
       and raw = "\<lparr> name = JStr ''Alice'', action = JStr ''in'', timestamp = JNum 1710000000 \<rparr>"
       and latestData = "[\<lparr> name = JStr ''Alice'', action = JStr ''in'',
                            timestamp = JNum 1710000000000, receivedAt = 1710000001234 \<rparr>]"]
    seconds
  by (simp add: convert_timestamp_def time_clip_def post_fingerprint_data_def
        get_api_data_def MAX_HISTORY_def Let_def)
qed

text \<open>
  The input at which C1 fails as stated: the store holds Alice's sign-in at 1710000000000,
  the same record arrives again and normalises to the same instant; the endpoint reports
  success, and the list that \<^verbatim>\<open>GET /api/data\<close> returns has changed.
\<close>

theorem server_dedup_counterexample:
  "fst (post_fingerprint_data (\<lambda>s. None) 1710000001234 []
      \<lparr> name = JStr ''Alice'', action = JStr ''in'', timestamp = JNum 1710000000 \<rparr>)
     = [\<lparr> name = JStr ''Alice'', action = JStr ''in'', timestamp = JNum 1710000000000,
          receivedAt = 1710000001234 \<rparr>]
   \<and> normalize_timestamp (\<lambda>s. None) (JNum 1710000000) = JNum 1710000000000
   \<and> is_200 (snd (post_fingerprint_data (\<lambda>s. None) 1710000001250
        [\<lparr> name = JStr ''Alice'', action = JStr ''in'', timestamp = JNum 1710000000000,
           receivedAt = 1710000001234 \<rparr>]
        \<lparr> name = JStr ''Alice'', action = JStr ''in'', timestamp = JNum 1710000000 \<rparr>))
   \<and> snd (get_api_data (fst (post_fingerprint_data (\<lambda>s. None) 1710000001250
        [\<lparr> name = JStr ''Alice'', action = JStr ''in'', timestamp = JNum 1710000000000,
           receivedAt = 1710000001234 \<rparr>]
        \<lparr> name = JStr ''Alice'', action = JStr ''in'', timestamp = JNum 1710000000 \<rparr>)))
     \<noteq> snd (get_api_data
        [\<lparr> name = JStr ''Alice'', action = JStr ''in'', timestamp = JNum 1710000000000,
           receivedAt = 1710000001234 \<rparr>])"
proof -
  have seconds: "normalize_timestamp (\<lambda>s. None) (JNum 1710000000) = JNum 1710000000000"
    using normalize_seconds [of 1710000000 "\<lambda>s. None"] by simp
  show ?thesis
    by (simp add: seconds post_fingerprint_data_def get_api_data_def MAX_HISTORY_def Let_def)
qed

section \<open>Active sessions\<close>

lemma same_value_zero_eq: "same_value_zero a k \<Longrightarrow> a = k"
  by (cases a) simp_all

lemma sessions_of_Nil: "sessions_of k [] = 0"
  by (simp add: sessions_of_def)

lemma sessions_of_Cons:
  "sessions_of k (p # m) = (if same_value_zero (fst p) k then 1 else 0) + sessions_of k m"
  by (simp add: sessions_of_def)

lemma sessions_of_Map_set:
  "sessions_of k (Map_set k' v m) =
     (if same_value_zero k' k \<and> sessions_of k m = 0 then 1 else sessions_of k m)"
proof (induction m)
  case Nil
  show ?case by (simp add: sessions_of_Cons sessions_of_Nil)
next
  case (Cons p m)
  obtain a b where p: "p = (a, b)" by (cases p)
  show ?case
  proof (cases "same_value_zero a k'")
    case True
    then have "a = k'" by (rule same_value_zero_eq)
    with True show ?thesis
      by (auto simp add: p sessions_of_Cons dest: same_value_zero_eq)
  next
    case False
    then show ?thesis
      using Cons.IH by (auto simp add: p sessions_of_Cons dest: same_value_zero_eq)
  qed
qed

lemma sessions_of_Map_delete: "sessions_of k (Map_delete k' m) \<le> sessions_of k m"
proof (induction m)
  case Nil
  show ?case by simp
next
  case (Cons p m)
  obtain a b where p: "p = (a, b)" by (cases p)
  show ?case using Cons.IH by (simp add: p sessions_of_Cons)
qed

lemma Map_get_Map_set: "same_value_zero k k \<Longrightarrow> Map_get k (Map_set k v m) = Some v"
  by (induction m) auto

lemma Map_get_absent: "sessions_of k m = 0 \<Longrightarrow> Map_get k m = None"
  by (induction m) (auto simp add: sessions_of_Cons split: if_splits)

lemma Map_get_Map_delete: "sessions_of k m \<le> 1 \<Longrightarrow> Map_get k (Map_delete k m) = None"
proof (induction m)
  case Nil
  show ?case by simp
next
  case (Cons p m)
  obtain a b where p: "p = (a, b)" by (cases p)
  show ?case
  proof (cases "same_value_zero a k")
    case True
    with Cons.prems have "sessions_of k m = 0" by (simp add: p sessions_of_Cons)
    then show ?thesis using True by (simp add: p Map_get_absent)
  next
    case False
    with Cons.prems have "sessions_of k m \<le> 1" by (simp add: p sessions_of_Cons)
    then show ?thesis using False Cons.IH by (simp add: p)
  qed
qed

lemma others_Map_set:
  "same_value_zero k k \<Longrightarrow>
   filter (\<lambda>p. \<not> same_value_zero (fst p) k) (Map_set k v m) =
   filter (\<lambda>p. \<not> same_value_zero (fst p) k) m"
  by (induction m) auto

lemma others_Map_delete:
  "filter (\<lambda>p. \<not> same_value_zero (fst p) k) (Map_delete k m) =
   filter (\<lambda>p. \<not> same_value_zero (fst p) k) m"
  by (induction m) auto

lemma same_value_zero_JStr: "same_value_zero a (JStr nm) = (a = JStr nm)"
  by (cases a) auto

lemma one_session_Map_set:
  "\<forall>k. sessions_of k m \<le> 1 \<Longrightarrow> \<forall>k. sessions_of k (Map_set k' v m) \<le> 1"
  by (simp add: sessions_of_Map_set)

lemma one_session_Map_delete:
  "\<forall>k. sessions_of k m \<le> 1 \<Longrightarrow> \<forall>k. sessions_of k (Map_delete k' m) \<le> 1"
  using sessions_of_Map_delete le_trans by blast

lemma processData_sessions:
  assumes "\<forall>k. sessions_of k (activeSessions S) \<le> 1"
  shows "\<forall>k. sessions_of k
           (activeSessions (fst (processData toLowerCase date_parse now S payload))) \<le> 1"
  using assms one_session_Map_set [OF assms] one_session_Map_delete [OF assms]
  by (auto simp add: processData_def Let_def addActiveSession_def removeActiveSession_def
        addActivityEntry_def split: option.splits jsval.splits)

lemma processEntry_sessions:
  assumes "\<forall>k. sessions_of k (activeSessions S) \<le> 1"
  shows "\<forall>k. sessions_of k (activeSessions (fst (processEntry date_parse now S data))) \<le> 1"
  using assms one_session_Map_set [OF assms] one_session_Map_delete [OF assms]
  by (auto simp add: processEntry_def Let_def)

lemma processData_all_sessions:
  "\<forall>k. sessions_of k (activeSessions S) \<le> 1 \<Longrightarrow>
   \<forall>k. sessions_of k
     (activeSessions (fst (processData_all toLowerCase date_parse S evs))) \<le> 1"
proof (induction evs arbitrary: S)
  case Nil
  then show ?case by simp
next
  case (Cons q evs)
  obtain now payload where q: "q = (now, payload)" by (cases q)
  obtain S1 r where step: "processData toLowerCase date_parse now S payload = (S1, r)"
    by (cases "processData toLowerCase date_parse now S payload")
  have "\<forall>k. sessions_of k (activeSessions S1) \<le> 1"
    using processData_sessions [OF Cons.prems, of toLowerCase date_parse now payload] step
    by simp
  from Cons.IH [OF this] show ?case
    using q step by (auto split: prod.splits)
qed

lemma processEntry_all_sessions:
  "\<forall>k. sessions_of k (activeSessions S) \<le> 1 \<Longrightarrow>
   \<forall>k. sessions_of k (activeSessions (fst (processEntry_all date_parse S evs))) \<le> 1"
proof (induction evs arbitrary: S)
  case Nil
  then show ?case by simp
next
  case (Cons q evs)
  obtain now data where q: "q = (now, data)" by (cases q)
  obtain S1 r where step: "processEntry date_parse now S data = (S1, r)"
    by (cases "processEntry date_parse now S data")
  have "\<forall>k. sessions_of k (activeSessions S1) \<le> 1"
    using processEntry_sessions [OF Cons.prems, of date_parse now data] step by simp
  from Cons.IH [OF this] show ?case
    using q step by (auto split: prod.splits)
qed

lemma one_session_init: "\<forall>k. sessions_of k (activeSessions STATE_init) \<le> 1"
  by (simp add: STATE_init_def sessions_of_Nil)

lemma sign_in_sessions:
  "Map_get (JStr nm) (Map_set (JStr nm) v m) = Some v
   \<and> filter (\<lambda>p. fst p \<noteq> JStr nm) (Map_set (JStr nm) v m) = filter (\<lambda>p. fst p \<noteq> JStr nm) m"
  using Map_get_Map_set [of "JStr nm" v m] others_Map_set [of "JStr nm" v m]
  by (simp add: same_value_zero_JStr)

lemma sign_out_sessions:
  assumes "sessions_of (JStr nm) m \<le> 1"
  shows "Map_get (JStr nm) (Map_delete (JStr nm) m) = None
   \<and> filter (\<lambda>p. fst p \<noteq> JStr nm) (Map_delete (JStr nm) m) = filter (\<lambda>p. fst p \<noteq> JStr nm) m"
  using Map_get_Map_delete [OF assms] others_Map_delete [of "JStr nm" m]
  by (simp add: same_value_zero_JStr)

text \<open>
  C8. In every state that a sequence of events leads to from the initial state, no name
  addresses more than one active session. A sign-in of a name puts the session of that
  name into the map, with the timestamp of the entry as its start time; a sign-out of the
  name leaves the map without a session of that name; either way the sessions of all
  other names stay as they were, in their order. This holds for \<^verbatim>\<open>processData\<close>
  (website3, which lower-cases the action) and for \<^verbatim>\<open>processEntry\<close> (website2, for an
  entry that is not skipped as a duplicate).
\<close>

theorem session_upsert_delete:
  "(\<forall>k. sessions_of k
          (activeSessions (fst (processData_all toLowerCase date_parse STATE_init evs))) \<le> 1)
   \<and> (\<forall>k. sessions_of k (activeSessions (fst (processEntry_all date_parse STATE_init ents))) \<le> 1)
   \<and> (name payload = JStr nm \<and> nm \<noteq> [] \<and> action payload = JStr a \<and> a \<noteq> []
        \<and> toLowerCase a = ''in''
      \<longrightarrow> Map_get (JStr nm)
            (activeSessions (fst (processData toLowerCase date_parse now S (Some payload))))
          = Some \<lparr> name = JStr nm,
                   startTime = parseTimestamp date_parse now
                     (if truthy (timestamp payload) then timestamp payload else time payload) \<rparr>
        \<and> filter (\<lambda>p. fst p \<noteq> JStr nm)
            (activeSessions (fst (processData toLowerCase date_parse now S (Some payload))))
          = filter (\<lambda>p. fst p \<noteq> JStr nm) (activeSessions S))
   \<and> (name payload = JStr nm \<and> nm \<noteq> [] \<and> action payload = JStr a \<and> a \<noteq> []
        \<and> toLowerCase a = ''out''
        \<and> S = fst (processData_all toLowerCase date_parse STATE_init evs)
      \<longrightarrow> Map_get (JStr nm)
            (activeSessions (fst (processData toLowerCase date_parse now S (Some payload))))
          = None
        \<and> filter (\<lambda>p. fst p \<noteq> JStr nm)
            (activeSessions (fst (processData toLowerCase date_parse now S (Some payload))))
          = filter (\<lambda>p. fst p \<noteq> JStr nm) (activeSessions S))
   \<and> (name data = JStr nm \<and> nm \<noteq> [] \<and> action data = JStr ''in''
        \<and> snd (processEntry date_parse now S' data) \<noteq> Duplicate
      \<longrightarrow> Map_get (JStr nm) (activeSessions (fst (processEntry date_parse now S' data)))
          = Some \<lparr> name = JStr nm,
                   startTime = convert_timestamp date_parse now (timestamp data) \<rparr>
        \<and> filter (\<lambda>p. fst p \<noteq> JStr nm)
            (activeSessions (fst (processEntry date_parse now S' data)))
          = filter (\<lambda>p. fst p \<noteq> JStr nm) (activeSessions S'))
   \<and> (name data = JStr nm \<and> nm \<noteq> [] \<and> action data = JStr ''out''
        \<and> snd (processEntry date_parse now S' data) \<noteq> Duplicate
        \<and> S' = fst (processEntry_all date_parse STATE_init ents)
      \<longrightarrow> Map_get (JStr nm) (activeSessions (fst (processEntry date_parse now S' data))) = None
        \<and> filter (\<lambda>p. fst p \<noteq> JStr nm)
            (activeSessions (fst (processEntry date_parse now S' data)))
          = filter (\<lambda>p. fst p \<noteq> JStr nm) (activeSessions S'))"
proof (intro conjI allI)
  fix k
  show "sessions_of k
          (activeSessions (fst (processData_all toLowerCase date_parse STATE_init evs))) \<le> 1"
    using processData_all_sessions [OF one_session_init] by blast
  show "sessions_of k (activeSessions (fst (processEntry_all date_parse STATE_init ents))) \<le> 1"
    using processEntry_all_sessions [OF one_session_init] by blast
next
  show "name payload = JStr nm \<and> nm \<noteq> [] \<and> action payload = JStr a \<and> a \<noteq> []
        \<and> toLowerCase a = ''in''
      \<longrightarrow> Map_get (JStr nm)
            (activeSessions (fst (processData toLowerCase date_parse now S (Some payload))))
          = Some \<lparr> name = JStr nm,
                   startTime = parseTimestamp date_parse now
                     (if truthy (timestamp payload) then timestamp payload else time payload) \<rparr>
        \<and> filter (\<lambda>p. fst p \<noteq> JStr nm)
            (activeSessions (fst (processData toLowerCase date_parse now S (Some payload))))
          = filter (\<lambda>p. fst p \<noteq> JStr nm) (activeSessions S)"
  proof
    assume h: "name payload = JStr nm \<and> nm \<noteq> [] \<and> action payload = JStr a \<and> a \<noteq> []
               \<and> toLowerCase a = ''in''"
    then have "activeSessions (fst (processData toLowerCase date_parse now S (Some payload)))
          = Map_set (JStr nm)
              \<lparr> name = JStr nm,
                startTime = parseTimestamp date_parse now
                  (if truthy (timestamp payload) then timestamp payload else time payload) \<rparr>
              (activeSessions S)"
      by (simp add: processData_def Let_def addActiveSession_def addActivityEntry_def)
    then show "Map_get (JStr nm)
            (activeSessions (fst (processData toLowerCase date_parse now S (Some payload))))
          = Some \<lparr> name = JStr nm,
                   startTime = parseTimestamp date_parse now
                     (if truthy (timestamp payload) then timestamp payload else time payload) \<rparr>
        \<and> filter (\<lambda>p. fst p \<noteq> JStr nm)
            (activeSessions (fst (processData toLowerCase date_parse now S (Some payload))))
          = filter (\<lambda>p. fst p \<noteq> JStr nm) (activeSessions S)"
      by (simp only: sign_in_sessions simp_thms)
  qed
next
  show "name payload = JStr nm \<and> nm \<noteq> [] \<and> action payload = JStr a \<and> a \<noteq> []
        \<and> toLowerCase a = ''out''
        \<and> S = fst (processData_all toLowerCase date_parse STATE_init evs)
      \<longrightarrow> Map_get (JStr nm)
            (activeSessions (fst (processData toLowerCase date_parse now S (Some payload))))
          = None
        \<and> filter (\<lambda>p. fst p \<noteq> JStr nm)
            (activeSessions (fst (processData toLowerCase date_parse now S (Some payload))))
          = filter (\<lambda>p. fst p \<noteq> JStr nm) (activeSessions S)"
  proof
    assume h: "name payload = JStr nm \<and> nm \<noteq> [] \<and> action payload = JStr a \<and> a \<noteq> []
               \<and> toLowerCase a = ''out''
               \<and> S = fst (processData_all toLowerCase date_parse STATE_init evs)"
    then have one: "sessions_of (JStr nm) (activeSessions S) \<le> 1"
      using processData_all_sessions [OF one_session_init, of toLowerCase date_parse evs]
      by simp
    from h have "activeSessions (fst (processData toLowerCase date_parse now S (Some payload)))
          = Map_delete (JStr nm) (activeSessions S)"
      by (simp add: processData_def Let_def removeActiveSession_def addActivityEntry_def)
    then show "Map_get (JStr nm)
            (activeSessions (fst (processData toLowerCase date_parse now S (Some payload))))
          = None
        \<and> filter (\<lambda>p. fst p \<noteq> JStr nm)
            (activeSessions (fst (processData toLowerCase date_parse now S (Some payload))))
          = filter (\<lambda>p. fst p \<noteq> JStr nm) (activeSessions S)"
      using sign_out_sessions [OF one] by simp
  qed
next
  show "name data = JStr nm \<and> nm \<noteq> [] \<and> action data = JStr ''in''
        \<and> snd (processEntry date_parse now S' data) \<noteq> Duplicate
      \<longrightarrow> Map_get (JStr nm) (activeSessions (fst (processEntry date_parse now S' data)))
          = Some \<lparr> name = JStr nm,
                   startTime = convert_timestamp date_parse now (timestamp data) \<rparr>
        \<and> filter (\<lambda>p. fst p \<noteq> JStr nm)
            (activeSessions (fst (processEntry date_parse now S' data)))
          = filter (\<lambda>p. fst p \<noteq> JStr nm) (activeSessions S')"
  proof
    assume h: "name data = JStr nm \<and> nm \<noteq> [] \<and> action data = JStr ''in''
        \<and> snd (processEntry date_parse now S' data) \<noteq> Duplicate"
    then have "activeSessions (fst (processEntry date_parse now S' data))
          = Map_set (JStr nm)
              \<lparr> name = JStr nm,
                startTime = convert_timestamp date_parse now (timestamp data) \<rparr>
              (activeSessions S')"
      by (auto simp add: processEntry_def Let_def split: if_splits)
    then show "Map_get (JStr nm) (activeSessions (fst (processEntry date_parse now S' data)))
          = Some \<lparr> name = JStr nm,
                   startTime = convert_timestamp date_parse now (timestamp data) \<rparr>
        \<and> filter (\<lambda>p. fst p \<noteq> JStr nm)
            (activeSessions (fst (processEntry date_parse now S' data)))
          = filter (\<lambda>p. fst p \<noteq> JStr nm) (activeSessions S')"
      by (simp only: sign_in_sessions simp_thms)
  qed
next
  show "name data = JStr nm \<and> nm \<noteq> [] \<and> action data = JStr ''out''
        \<and> snd (processEntry date_parse now S' data) \<noteq> Duplicate
        \<and> S' = fst (processEntry_all date_parse STATE_init ents)
      \<longrightarrow> Map_get (JStr nm) (activeSessions (fst (processEntry date_parse now S' data))) = None
        \<and> filter (\<lambda>p. fst p \<noteq> JStr nm)
            (activeSessions (fst (processEntry date_parse now S' data)))
          = filter (\<lambda>p. fst p \<noteq> JStr nm) (activeSessions S')"
  proof
    assume h: "name data = JStr nm \<and> nm \<noteq> [] \<and> action data = JStr ''out''
        \<and> snd (processEntry date_parse now S' data) \<noteq> Duplicate
        \<and> S' = fst (processEntry_all date_parse STATE_init ents)"
    then have one: "sessions_of (JStr nm) (activeSessions S') \<le> 1"
      using processEntry_all_sessions [OF one_session_init, of date_parse ents] by simp
    from h have "activeSessions (fst (processEntry date_parse now S' data))
          = Map_delete (JStr nm) (activeSessions S')"
      by (auto simp add: processEntry_def Let_def split: if_splits)
    then show "Map_get (JStr nm) (activeSessions (fst (processEntry date_parse now S' data)))
          = None
        \<and> filter (\<lambda>p. fst p \<noteq> JStr nm)
            (activeSessions (fst (processEntry date_parse now S' data)))
          = filter (\<lambda>p. fst p \<noteq> JStr nm) (activeSessions S')"
      using sign_out_sessions [OF one] by simp
  qed
qed

text \<open>
  The witness is the example of the specification, with Bob signed in before: Alice signs
  in at 1710000000 (in seconds for website3, in milliseconds for website2) and is present
  with that start time; she then signs out, and is absent. Bob's session is there
  throughout.
\<close>

theorem session_upsert_delete_witness:
  "activeSessions (fst (processData_all ascii_toLowerCase (\<lambda>s. None) STATE_init
      [(1709999000123,
        Some \<lparr> name = JStr ''Bob'', action = JStr ''in'', timestamp = JNum 1709999000,
               time = JUndefined \<rparr>),
       (1710000001234,
        Some \<lparr> name = JStr ''Alice'', action = JStr ''in'', timestamp = JNum 1710000000,
               time = JUndefined \<rparr>)]))
     = [(JStr ''Bob'', \<lparr> name = JStr ''Bob'', startTime = Some 1709999000000 \<rparr>),
        (JStr ''Alice'', \<lparr> name = JStr ''Alice'', startTime = Some 1710000000000 \<rparr>)]
   \<and> activeSessions (fst (processData_all ascii_toLowerCase (\<lambda>s. None) STATE_init
      [(1709999000123,
        Some \<lparr> name = JStr ''Bob'', action = JStr ''in'', timestamp = JNum 1709999000,
               time = JUndefined \<rparr>),
       (1710000001234,
        Some \<lparr> name = JStr ''Alice'', action = JStr ''in'', timestamp = JNum 1710000000,
               time = JUndefined \<rparr>),
       (1710003601234,
        Some \<lparr> name = JStr ''Alice'', action = JStr ''OUT'', timestamp = JNum 1710003600,
               time = JUndefined \<rparr>)]))
     = [(JStr ''Bob'', \<lparr> name = JStr ''Bob'', startTime = Some 1709999000000 \<rparr>)]
   \<and> activeSessions (fst (processEntry_all (\<lambda>s. None) STATE_init
      [(1709999000123,
        \<lparr> name = JStr ''Bob'', action = JStr ''in'', timestamp = JNum 1709999000000 \<rparr>),
       (1710000001234,
        \<lparr> name = JStr ''Alice'', action = JStr ''in'', timestamp = JNum 1710000000000 \<rparr>)]))
     = [(JStr ''Bob'', \<lparr> name = JStr ''Bob'', startTime = Some 1709999000000 \<rparr>),
        (JStr ''Alice'', \<lparr> name = JStr ''Alice'', startTime = Some 1710000000000 \<rparr>)]
   \<and> activeSessions (fst (processEntry_all (\<lambda>s. None) STATE_init
      [(1709999000123,
        \<lparr> name = JStr ''Bob'', action = JStr ''in'', timestamp = JNum 1709999000000 \<rparr>),
       (1710000001234,
        \<lparr> name = JStr ''Alice'', action = JStr ''in'', timestamp = JNum 1710000000000 \<rparr>),
       (1710003601234,
        \<lparr> name = JStr ''Alice'', action = JStr ''out'', timestamp = JNum 1710003600000 \<rparr>)]))
     = [(JStr ''Bob'', \<lparr> name = JStr ''Bob'', startTime = Some 1709999000000 \<rparr>)]
   \<and> Map_get (JStr ''Alice'')
        (activeSessions (fst (processData ascii_toLowerCase (\<lambda>s. None) 1710000001234
          (fst (processData_all ascii_toLowerCase (\<lambda>s. None) STATE_init
             [(1709999000123,
               Some \<lparr> name = JStr ''Bob'', action = JStr ''in'', timestamp = JNum 1709999000,
                      time = JUndefined \<rparr>)]))
          (Some \<lparr> name = JStr ''Alice'', action = JStr ''in'', timestamp = JNum 1710000000,
                  time = JUndefined \<rparr>))))
     = Some \<lparr> name = JStr ''Alice'', startTime = Some 1710000000000 \<rparr>
   \<and> Map_get (JStr ''Alice'')
        (activeSessions (fst (processData ascii_toLowerCase (\<lambda>s. None) 1710003601234
          (fst (processData_all ascii_toLowerCase (\<lambda>s. None) STATE_init
             [(1709999000123,
               Some \<lparr> name = JStr ''Bob'', action = JStr ''in'', timestamp = JNum 1709999000,
                      time = JUndefined \<rparr>),
              (1710000001234,
               Some \<lparr> name = JStr ''Alice'', action = JStr ''in'', timestamp = JNum 1710000000,
                      time = JUndefined \<rparr>)]))
          (Some \<lparr> name = JStr ''Alice'', action = JStr ''OUT'', timestamp = JNum 1710003600,
                  time = JUndefined \<rparr>))))
     = None
   \<and> Map_get (JStr ''Alice'')
        (activeSessions (fst (processEntry (\<lambda>s. None) 1710000001234
          (fst (processEntry_all (\<lambda>s. None) STATE_init
             [(1709999000123,
               \<lparr> name = JStr ''Bob'', action = JStr ''in'',
                 timestamp = JNum 1709999000000 \<rparr>)]))
          \<lparr> name = JStr ''Alice'', action = JStr ''in'', timestamp = JNum 1710000000000 \<rparr>)))
     = Some \<lparr> name = JStr ''Alice'', startTime = Some 1710000000000 \<rparr>
   \<and> Map_get (JStr ''Alice'')
        (activeSessions (fst (processEntry (\<lambda>s. None) 1710003601234
          (fst (processEntry_all (\<lambda>s. None) STATE_init
             [(1709999000123,
               \<lparr> name = JStr ''Bob'', action = JStr ''in'',
                 timestamp = JNum 1709999000000 \<rparr>),
              (1710000001234,
               \<lparr> name = JStr ''Alice'', action = JStr ''in'',
                 timestamp = JNum 1710000000000 \<rparr>)]))
          \<lparr> name = JStr ''Alice'', action = JStr ''out'', timestamp = JNum 1710003600000 \<rparr>)))
     = None"
proof -
  let ?bob3 = "\<lparr> name = JStr ''Bob'', action = JStr ''in'', timestamp = JNum 1709999000,
                 time = JUndefined \<rparr>"
  let ?in3 = "\<lparr> name = JStr ''Alice'', action = JStr ''in'', timestamp = JNum 1710000000,
                time = JUndefined \<rparr>"
  let ?out3 = "\<lparr> name = JStr ''Alice'', action = JStr ''OUT'', timestamp = JNum 1710003600,
                time = JUndefined \<rparr>"
  let ?bob2 = "\<lparr> name = JStr ''Bob'', action = JStr ''in'', timestamp = JNum 1709999000000 \<rparr>"
  let ?in2 = "\<lparr> name = JStr ''Alice'', action = JStr ''in'', timestamp = JNum 1710000000000 \<rparr>"
  let ?out2 = "\<lparr> name = JStr ''Alice'', action = JStr ''out'',
                 timestamp = JNum 1710003600000 \<rparr>"
  let ?evs1 = "[(1709999000123, Some ?bob3)]"
  let ?evs2 = "[(1709999000123, Some ?bob3), (1710000001234, Some ?in3)]"
  let ?ents1 = "[(1709999000123, ?bob2)]"
  let ?ents2 = "[(1709999000123, ?bob2), (1710000001234, ?in2)]"
  let ?A = "fst (processData_all ascii_toLowerCase (\<lambda>s. None) STATE_init ?evs1)"
  let ?B = "fst (processData_all ascii_toLowerCase (\<lambda>s. None) STATE_init ?evs2)"
  let ?A' = "fst (processEntry_all (\<lambda>s. None) STATE_init ?ents1)"
  let ?B' = "fst (processEntry_all (\<lambda>s. None) STATE_init ?ents2)"
  have lower: "ascii_toLowerCase ''in'' = ''in''" "ascii_toLowerCase ''OUT'' = ''out''"
    by code_simp+
  have start3: "parseTimestamp (\<lambda>s. None) 1710000001234 (JNum 1710000000) = Some 1710000000000"
    by (simp add: parseTimestamp_def time_clip_def)
  have start2: "convert_timestamp (\<lambda>s. None) 1710000001234 (JNum 1710000000000)
                  = Some 1710000000000"
    by (simp add: convert_timestamp_def time_clip_def)
  have fresh: "snd (processEntry (\<lambda>s. None) 1710000001234 ?A' ?in2) \<noteq> Duplicate"
    "snd (processEntry (\<lambda>s. None) 1710003601234 ?B' ?out2) \<noteq> Duplicate"
    by code_simp+
  have runs:
    "activeSessions (fst (processData_all ascii_toLowerCase (\<lambda>s. None) STATE_init ?evs2))
     = [(JStr ''Bob'', \<lparr> name = JStr ''Bob'', startTime = Some 1709999000000 \<rparr>),
        (JStr ''Alice'', \<lparr> name = JStr ''Alice'', startTime = Some 1710000000000 \<rparr>)]"
    "activeSessions (fst (processData_all ascii_toLowerCase (\<lambda>s. None) STATE_init
       [(1709999000123, Some ?bob3), (1710000001234, Some ?in3),
        (1710003601234, Some ?out3)]))
     = [(JStr ''Bob'', \<lparr> name = JStr ''Bob'', startTime = Some 1709999000000 \<rparr>)]"
    "activeSessions (fst (processEntry_all (\<lambda>s. None) STATE_init ?ents2))
     = [(JStr ''Bob'', \<lparr> name = JStr ''Bob'', startTime = Some 1709999000000 \<rparr>),
        (JStr ''Alice'', \<lparr> name = JStr ''Alice'', startTime = Some 1710000000000 \<rparr>)]"
    "activeSessions (fst (processEntry_all (\<lambda>s. None) STATE_init
       [(1709999000123, ?bob2), (1710000001234, ?in2), (1710003601234, ?out2)]))
     = [(JStr ''Bob'', \<lparr> name = JStr ''Bob'', startTime = Some 1709999000000 \<rparr>)]"
    by code_simp+
  have in3: "Map_get (JStr ''Alice'')
        (activeSessions (fst (processData ascii_toLowerCase (\<lambda>s. None) 1710000001234 ?A
          (Some ?in3))))
     = Some \<lparr> name = JStr ''Alice'', startTime = Some 1710000000000 \<rparr>"
    using session_upsert_delete
        [where toLowerCase = ascii_toLowerCase and date_parse = "\<lambda>s. None"
           and now = 1710000001234 and S = ?A
           and payload = ?in3 and nm = "''Alice''" and a = "''in''"]
      lower start3
    by simp
  have out3: "Map_get (JStr ''Alice'')
        (activeSessions (fst (processData ascii_toLowerCase (\<lambda>s. None) 1710003601234 ?B
          (Some ?out3))))
     = None"
    using session_upsert_delete
        [where toLowerCase = ascii_toLowerCase and date_parse = "\<lambda>s. None"
           and now = 1710003601234 and S = ?B and evs = ?evs2
           and payload = ?out3 and nm = "''Alice''" and a = "''OUT''"]
      lower
    by simp
  have in2: "Map_get (JStr ''Alice'')
        (activeSessions (fst (processEntry (\<lambda>s. None) 1710000001234 ?A' ?in2)))
     = Some \<lparr> name = JStr ''Alice'', startTime = Some 1710000000000 \<rparr>"
    using session_upsert_delete
        [where date_parse = "\<lambda>s. None" and now = 1710000001234 and S' = ?A'
           and data = ?in2 and nm = "''Alice''"]
      start2 fresh(1)
    by simp
  have out2: "Map_get (JStr ''Alice'')
        (activeSessions (fst (processEntry (\<lambda>s. None) 1710003601234 ?B' ?out2)))
     = None"
    using session_upsert_delete
        [where date_parse = "\<lambda>s. None" and now = 1710003601234 and S' = ?B'
           and ents = ?ents2 and data = ?out2 and nm = "''Alice''"]
      fresh(2)
    by simp
  show ?thesis
    using runs in3 out3 in2 out2 by blast
qed

section \<open>Clearing\<close>

text \<open>
  C7 (as amended). \<^verbatim>\<open>DELETE /api/data\<close> empties the store of the server and reports the
  number of entries that the store held; afterwards \<^verbatim>\<open>GET /api/data\<close> returns the empty
  list. The server keeps no session map. \<^verbatim>\<open>clearActivity\<close> of website2, once confirmed,
  empties the activity history and the active sessions of the dashboard; declined, it
  changes nothing. \<^verbatim>\<open>clearActivity\<close> of website3 empties the activity history and leaves
  the active sessions as they are. Neither dashboard function returns a count.
\<close>

theorem clear_semantics:
  "delete_api_data latestData = ([], length latestData)
   \<and> get_api_data (fst (delete_api_data latestData)) = (0, [])
   \<and> activityHistory (clearActivity_website2 True S) = []
   \<and> activeSessions (clearActivity_website2 True S) = []
   \<and> clearActivity_website2 False S = S
   \<and> activityHistory (clearActivity S) = []
   \<and> activeSessions (clearActivity S) = activeSessions S"
  by (simp add: delete_api_data_def get_api_data_def clearActivity_website2_def
        clearActivity_def)

theorem clear_semantics_witness:
  "delete_api_data
      [\<lparr> name = JStr ''Alice'', action = JStr ''in'', timestamp = JNum 1710000000000,
         receivedAt = 1710000001234 \<rparr>,
       \<lparr> name = JStr ''Bob'', action = JStr ''out'', timestamp = JNum 1709999990000,
         receivedAt = 1709999990321 \<rparr>]
     = ([], 2)
   \<and> activeSessions (clearActivity_website2 True
        \<lparr> activeSessions = [(JStr ''Alice'',
             \<lparr> name = JStr ''Alice'', startTime = Some 1710000000000 \<rparr>)],
          activityHistory =
            [\<lparr> name = JStr ''Alice'', action = JStr ''in'', timestamp = Some 1710000000000 \<rparr>],
          statistics = \<lparr> totalEntries = 1, signInsToday = 1, signOutsToday = 0 \<rparr> \<rparr>) = []"
  using clear_semantics
    [of "[\<lparr> name = JStr ''Alice'', action = JStr ''in'', timestamp = JNum 1710000000000,
            receivedAt = 1710000001234 \<rparr>,
          \<lparr> name = JStr ''Bob'', action = JStr ''out'', timestamp = JNum 1709999990000,
            receivedAt = 1709999990321 \<rparr>]"
        "\<lparr> activeSessions = [(JStr ''Alice'',
             \<lparr> name = JStr ''Alice'', startTime = Some 1710000000000 \<rparr>)],
          activityHistory =
            [\<lparr> name = JStr ''Alice'', action = JStr ''in'', timestamp = Some 1710000000000 \<rparr>],
          statistics = \<lparr> totalEntries = 1, signInsToday = 1, signOutsToday = 0 \<rparr> \<rparr>"]
  by simp

text \<open>
  The input at which C7 fails as stated: after Alice's sign-in, \<^verbatim>\<open>clearActivity\<close> of
  website3 leaves her session in the map.
\<close>

theorem clearActivity_keeps_sessions_counterexample:
  "activeSessions (clearActivity (fst (processData ascii_toLowerCase (\<lambda>s. None) 1710000001234 STATE_init
      (Some \<lparr> name = JStr ''Alice'', action = JStr ''in'', timestamp = JNum 1710000000,
              time = JUndefined \<rparr>))))
   = [(JStr ''Alice'', \<lparr> name = JStr ''Alice'', startTime = Some 1710000000000 \<rparr>)]"
  by code_simp

section \<open>Statistics\<close>

lemma js_ge_JNum: "js_ge str_num (JNum n) t = (t \<le> n)"
  by (simp add: js_ge_def)

lemma not_after_window:
  "not_after v now \<Longrightarrow> now < hi \<Longrightarrow> js_ge str_num v lo = occurred_within v lo hi"
  by (cases v) (simp_all add: js_ge_JNum)

lemma today_filter:
  assumes "list_all (\<lambda>e. not_after (timestamp e) now) L" and "now < hi"
  shows "filter (\<lambda>e. action e = act) (filter (\<lambda>e. js_ge str_num (timestamp e) lo) L) =
         filter (\<lambda>e. action e = act \<and> occurred_within (timestamp e) lo hi) L"
  using assms by (induction L) (auto simp add: not_after_window)

lemma last24h_filter:
  assumes "list_all (\<lambda>e. not_after (timestamp e) now) L" and "now < hi"
  shows "filter (\<lambda>e. js_ge str_num (timestamp e) lo) L =
         filter (\<lambda>e. occurred_within (timestamp e) lo hi) L"
  using assms by (induction L) (auto simp add: not_after_window)

text \<open>
  C6 (as amended). \<^verbatim>\<open>GET /api/stats\<close> bounds its windows from below only, and evaluates
  them at the current instant. An entry with a numeric timestamp counts as a sign-in (a
  sign-out) of today when its action matches and its timestamp is not before the local
  midnight that started today, and counts for the last 24 hours when its timestamp is not
  before the current instant minus 86,400,000 ms; an entry from before that midnight is
  not counted today. When every retained entry carries a numeric timestamp that is not
  after the current instant, the three counts are those of the two-sided windows of the
  specification.
\<close>

theorem statistics_windows:
  "(list_all (\<lambda>entry. not_after (timestamp entry) now) latestData \<and> now < day_end
     \<longrightarrow> signInsToday (get_api_stats str_num start_of_day now latestData)
           = spec_today (JStr ''in'') (start_of_day now) day_end latestData
       \<and> signOutsToday (get_api_stats str_num start_of_day now latestData)
           = spec_today (JStr ''out'') (start_of_day now) day_end latestData
       \<and> entriesLast24h (get_api_stats str_num start_of_day now latestData)
           = spec_last24h now latestData)
   \<and> (timestamp e = JNum n
     \<longrightarrow> signInsToday (get_api_stats str_num start_of_day now (e # latestData))
           = signInsToday (get_api_stats str_num start_of_day now latestData)
             + (if action e = JStr ''in'' \<and> start_of_day now \<le> n then 1 else 0)
       \<and> signOutsToday (get_api_stats str_num start_of_day now (e # latestData))
           = signOutsToday (get_api_stats str_num start_of_day now latestData)
             + (if action e = JStr ''out'' \<and> start_of_day now \<le> n then 1 else 0)
       \<and> entriesLast24h (get_api_stats str_num start_of_day now (e # latestData))
           = entriesLast24h (get_api_stats str_num start_of_day now latestData)
             + (if now - 86400000 \<le> n then 1 else 0))"
proof (intro conjI impI)
  assume a: "list_all (\<lambda>entry. not_after (timestamp entry) now) latestData \<and> now < day_end"
  then have all: "list_all (\<lambda>entry. not_after (timestamp entry) now) latestData"
    and lt: "now < day_end" by simp_all
  show "signInsToday (get_api_stats str_num start_of_day now latestData)
           = spec_today (JStr ''in'') (start_of_day now) day_end latestData"
    using today_filter [OF all lt, of "JStr ''in''" str_num "start_of_day now"]
    by (simp add: get_api_stats_def spec_today_def Let_def)
  show "signOutsToday (get_api_stats str_num start_of_day now latestData)
           = spec_today (JStr ''out'') (start_of_day now) day_end latestData"
    using today_filter [OF all lt, of "JStr ''out''" str_num "start_of_day now"]
    by (simp add: get_api_stats_def spec_today_def Let_def)
  have "now < now + 1" by simp
  then show "entriesLast24h (get_api_stats str_num start_of_day now latestData)
           = spec_last24h now latestData"
    using last24h_filter [OF all, of "now + 1" str_num "now - 86400000"]
    by (simp add: get_api_stats_def spec_last24h_def Let_def)
next
  assume n: "timestamp e = JNum n"
  show "signInsToday (get_api_stats str_num start_of_day now (e # latestData))
           = signInsToday (get_api_stats str_num start_of_day now latestData)
             + (if action e = JStr ''in'' \<and> start_of_day now \<le> n then 1 else 0)"
    using n by (simp add: get_api_stats_def Let_def js_ge_JNum)
  show "signOutsToday (get_api_stats str_num start_of_day now (e # latestData))
           = signOutsToday (get_api_stats str_num start_of_day now latestData)
             + (if action e = JStr ''out'' \<and> start_of_day now \<le> n then 1 else 0)"
    using n by (simp add: get_api_stats_def Let_def js_ge_JNum)
  show "entriesLast24h (get_api_stats str_num start_of_day now (e # latestData))
           = entriesLast24h (get_api_stats str_num start_of_day now latestData)
             + (if now - 86400000 \<le> n then 1 else 0)"
    using n by (simp add: get_api_stats_def Let_def js_ge_JNum)
qed

text \<open>
  The witness takes days in UTC. Alice signs in at 23:59:59 of 2024-03-09
  (1710028799000) and Bob at 00:00:01 of 2024-03-10 (1710028801000). Asked half a second
  after Alice's sign-in, the server counts one sign-in today, hers. Asked at 00:00:02 of
  2024-03-10 with both entries retained, it counts one sign-in today, Bob's, as the
  two-sided window does; both entries are within the last 24 hours.
\<close>

theorem statistics_windows_witness:
  "(\<lambda>t. t - t mod 86400000) (1710028799500 :: int) = 1709942400000
   \<and> list_all (\<lambda>entry. not_after (timestamp entry) 1710028799500)
        [\<lparr> name = JStr ''Alice'', action = JStr ''in'', timestamp = JNum 1710028799000,
           receivedAt = 1710028799100 \<rparr>]
   \<and> signInsToday (get_api_stats (\<lambda>s. None) (\<lambda>t. t - t mod 86400000) 1710028799500
        [\<lparr> name = JStr ''Alice'', action = JStr ''in'', timestamp = JNum 1710028799000,
           receivedAt = 1710028799100 \<rparr>]) = 1
   \<and> spec_today (JStr ''in'') 1709942400000 1710028800000
        [\<lparr> name = JStr ''Alice'', action = JStr ''in'', timestamp = JNum 1710028799000,
           receivedAt = 1710028799100 \<rparr>] = 1
   \<and> (\<lambda>t. t - t mod 86400000) (1710028802000 :: int) = 1710028800000
   \<and> list_all (\<lambda>entry. not_after (timestamp entry) 1710028802000)
        [\<lparr> name = JStr ''Bob'', action = JStr ''in'', timestamp = JNum 1710028801000,
           receivedAt = 1710028801100 \<rparr>,
         \<lparr> name = JStr ''Alice'', action = JStr ''in'', timestamp = JNum 1710028799000,
           receivedAt = 1710028799100 \<rparr>]
   \<and> signInsToday (get_api_stats (\<lambda>s. None) (\<lambda>t. t - t mod 86400000) 1710028802000
        [\<lparr> name = JStr ''Bob'', action = JStr ''in'', timestamp = JNum 1710028801000,
           receivedAt = 1710028801100 \<rparr>,
         \<lparr> name = JStr ''Alice'', action = JStr ''in'', timestamp = JNum 1710028799000,
           receivedAt = 1710028799100 \<rparr>]) = 1
   \<and> spec_today (JStr ''in'') 1710028800000 1710115200000
        [\<lparr> name = JStr ''Bob'', action = JStr ''in'', timestamp = JNum 1710028801000,
           receivedAt = 1710028801100 \<rparr>,
         \<lparr> name = JStr ''Alice'', action = JStr ''in'', timestamp = JNum 1710028799000,
           receivedAt = 1710028799100 \<rparr>] = 1
   \<and> entriesLast24h (get_api_stats (\<lambda>s. None) (\<lambda>t. t - t mod 86400000) 1710028802000
        [\<lparr> name = JStr ''Bob'', action = JStr ''in'', timestamp = JNum 1710028801000,
           receivedAt = 1710028801100 \<rparr>,
         \<lparr> name = JStr ''Alice'', action = JStr ''in'', timestamp = JNum 1710028799000,
           receivedAt = 1710028799100 \<rparr>]) = 2"
proof -
  let ?alice = "\<lparr> name = JStr ''Alice'', action = JStr ''in'', timestamp = JNum 1710028799000,
                   receivedAt = 1710028799100 \<rparr>"
  let ?bob = "\<lparr> name = JStr ''Bob'', action = JStr ''in'', timestamp = JNum 1710028801000,
                 receivedAt = 1710028801100 \<rparr>"
  have h1: "list_all (\<lambda>entry. not_after (timestamp entry) 1710028799500) [?alice]
            \<and> (1710028799500 :: int) < 1710028800000"
    by simp
  have h2: "list_all (\<lambda>entry. not_after (timestamp entry) 1710028802000) [?bob, ?alice]
            \<and> (1710028802000 :: int) < 1710115200000"
    by simp
  have v: "spec_today (JStr ''in'') 1709942400000 1710028800000 [?alice] = 1"
    "spec_today (JStr ''in'') 1710028800000 1710115200000 [?bob, ?alice] = 1"
    "spec_last24h 1710028802000 [?bob, ?alice] = 2"
    by (simp_all add: spec_today_def spec_last24h_def)
  show ?thesis
    using statistics_windows
      [where latestData = "[?alice]" and now = 1710028799500 and day_end = 1710028800000
         and str_num = "\<lambda>s. None" and start_of_day = "\<lambda>t. t - t mod 86400000"]
      statistics_windows
      [where latestData = "[?bob, ?alice]" and now = 1710028802000
         and day_end = 1710115200000
         and str_num = "\<lambda>s. None" and start_of_day = "\<lambda>t. t - t mod 86400000"]
      h1 h2 v
    by simp
qed

text \<open>
  The input at which C6 fails as stated: asked at 1710000000000 (2024-03-09, UTC), with
  one retained sign-in whose timestamp is 1710100000000 (2024-03-10), the server counts
  the entry as a sign-in of today and as an entry of the last 24 hours, although it lies
  after the end of the day (1710028800000) and after the instant of the request.
\<close>

theorem statistics_upper_bound_counterexample:
  "(\<lambda>t. t - t mod 86400000) (1710000000000 :: int) = 1709942400000
   \<and> signInsToday (get_api_stats (\<lambda>s. None) (\<lambda>t. t - t mod 86400000) 1710000000000
      [\<lparr> name = JStr ''Alice'', action = JStr ''in'', timestamp = JNum 1710100000000,
         receivedAt = 1709999999000 \<rparr>]) = 1
   \<and> spec_today (JStr ''in'') 1709942400000 (1709942400000 + 86400000)
      [\<lparr> name = JStr ''Alice'', action = JStr ''in'', timestamp = JNum 1710100000000,
         receivedAt = 1709999999000 \<rparr>] = 0
   \<and> entriesLast24h (get_api_stats (\<lambda>s. None) (\<lambda>t. t - t mod 86400000) 1710000000000
      [\<lparr> name = JStr ''Alice'', action = JStr ''in'', timestamp = JNum 1710100000000,
         receivedAt = 1709999999000 \<rparr>]) = 1
   \<and> spec_last24h 1710000000000
      [\<lparr> name = JStr ''Alice'', action = JStr ''in'', timestamp = JNum 1710100000000,
         receivedAt = 1709999999000 \<rparr>] = 0"
  by (simp add: get_api_stats_def spec_today_def spec_last24h_def js_ge_def Let_def)

end
